theory Spec2Isabelle
  imports Complex_Main "HOL-Library.Multiset"
begin

section \<open>Float64 arithmetic\<close>

text \<open>
  A float64 value that is not NaN is the real number it stands for; the infinities are
  outside the model. Each arithmetic operation of float64 returns a rounded result, so
  the four operations are taken as they are, in a record that every function computing
  on floats receives: what is proved for every such record holds for the arithmetic of
  the machine. Comparison, negation, the absolute value and the conversion of a small
  integer are exact.
\<close>

record float_ops =
  f_add :: "real \<Rightarrow> real \<Rightarrow> real"
  f_sub :: "real \<Rightarrow> real \<Rightarrow> real"
  f_mul :: "real \<Rightarrow> real \<Rightarrow> real"
  f_div :: "real \<Rightarrow> real \<Rightarrow> real"

text \<open>Arithmetic without rounding.\<close>

definition exact_ops :: float_ops where
  "exact_ops = \<lparr>f_add = (+), f_sub = (-), f_mul = (*), f_div = (/)\<rparr>"

text \<open>
  The arithmetic of IEEE 754 binary64: the exact result rounded to the nearest number
  with a significand of 53 bits (\<open>x = m * 2^e\<close> with \<open>|m| < 2^53\<close> and \<open>e \<ge> -1074\<close>), a tie
  going to the even significand. \<open>round_half_even\<close> is also Python's \<open>round\<close> on a float.
  Results beyond the largest float64 are outside the model.
\<close>

definition round_half_even :: "real \<Rightarrow> int" where
  "round_half_even x =
     (let f = \<lfloor>x\<rfloor>; d = x - of_int f
      in if d < 1/2 then f else if 1/2 < d then f + 1 else if even f then f else f + 1)"

definition pow2 :: "int \<Rightarrow> real" where
  "pow2 e = (if 0 \<le> e then 2 ^ nat e else 1 / 2 ^ nat (- e))"

definition round64 :: "real \<Rightarrow> real" where
  "round64 x =
     (if x = 0 then 0
      else let e = max (\<lfloor>log 2 \<bar>x\<bar>\<rfloor> - 52) (- 1074)
           in real_of_int (round_half_even (x / pow2 e)) * pow2 e)"

definition ieee :: float_ops where
  "ieee = \<lparr>f_add = (\<lambda>x y. round64 (x + y)), f_sub = (\<lambda>x y. round64 (x - y)),
            f_mul = (\<lambda>x y. round64 (x * y)), f_div = (\<lambda>x y. round64 (x / y))\<rparr>"

section \<open>Numeric cells\<close>

text \<open>
  A numeric cell of a pandas table is a float64 that may be NaN, written \<open>None\<close>:
  arithmetic on a NaN gives a NaN, and every comparison with a NaN is false.
\<close>

type_synonym cell = "real option"

definition fsub :: "float_ops \<Rightarrow> cell \<Rightarrow> cell \<Rightarrow> cell" where
  "fsub F a b = (case (a, b) of (Some x, Some y) \<Rightarrow> Some (f_sub F x y) | _ \<Rightarrow> None)"

definition fadd :: "float_ops \<Rightarrow> cell \<Rightarrow> cell \<Rightarrow> cell" where
  "fadd F a b = (case (a, b) of (Some x, Some y) \<Rightarrow> Some (f_add F x y) | _ \<Rightarrow> None)"

definition fmul :: "float_ops \<Rightarrow> cell \<Rightarrow> cell \<Rightarrow> cell" where
  "fmul F a b = (case (a, b) of (Some x, Some y) \<Rightarrow> Some (f_mul F x y) | _ \<Rightarrow> None)"

definition fdivc :: "float_ops \<Rightarrow> cell \<Rightarrow> real \<Rightarrow> cell" where
  "fdivc F a c = map_option (\<lambda>x. f_div F x c) a"

definition fabs :: "cell \<Rightarrow> cell" where
  "fabs a = map_option abs a"

definition fle :: "cell \<Rightarrow> cell \<Rightarrow> bool" where
  "fle a b = (case (a, b) of (Some x, Some y) \<Rightarrow> x \<le> y | _ \<Rightarrow> False)"

definition flt0 :: "cell \<Rightarrow> bool" where
  "flt0 a = (case a of Some x \<Rightarrow> x < 0 | None \<Rightarrow> False)"

section \<open>Defect tables\<close>

text \<open>
  A defect table is a DataFrame with the default index \<open>0, 1, 2, ...\<close> (the Record
  Splitter resets the index of every table it returns), so a row is identified by its
  position. The model keeps the list of column names and, for every row, the cells of
  the columns that \<open>compare_defects\<close> reads or writes; a field whose column is absent is
  never read.
\<close>

record defect_row =
  log_dist_m :: cell
  anomaly_id :: string
  depth_pct :: cell
  wt_nom_mm :: cell
  defect_id :: nat

record table =
  columns :: "string list"
  rows :: "defect_row list"

text \<open>The object store: a table lives at an address, \<open>copy\<close> allocates a new one.\<close>

type_synonym heap = "table list"

definition df_copy :: "nat \<Rightarrow> heap \<Rightarrow> nat \<times> heap" where
  "df_copy a h = (length h, h @ [h ! a])"

definition range_ids :: "defect_row list \<Rightarrow> defect_row list" where
  "range_ids rs = map (\<lambda>(i, r). r\<lparr>defect_id := i\<rparr>) (enumerate 0 rs)"

definition assign_defect_id :: "table \<Rightarrow> table" where
  "assign_defect_id df =
     \<lparr>columns = (if ''defect_id'' \<in> set (columns df) then columns df
                 else columns df @ [''defect_id'']),
      rows = range_ids (rows df)\<rparr>"

definition set_defect_id :: "nat \<Rightarrow> heap \<Rightarrow> heap" where
  "set_defect_id a h = h[a := assign_defect_id (h ! a)]"

section \<open>Matches and the result\<close>

record growth_data =
  old_depth_pct :: cell
  new_depth_pct :: cell
  depth_change_pct :: cell
  growth_rate_pct_per_year :: cell
  is_negative_growth :: bool

record mm_data =
  old_depth_mm :: cell
  new_depth_mm :: cell
  depth_change_mm :: cell
  growth_rate_mm_per_year :: cell

record match_data =
  new_defect_id :: nat
  old_defect_id :: nat
  distance_diff :: cell
  log_dist :: cell
  old_log_dist :: cell
  defect_type :: string
  growth :: "growth_data option"
  mm :: "mm_data option"

record loop_state =
  matched_old :: "nat set"
  matched_new :: "nat set"
  matches :: "match_data list"

record result =
  matches_df :: "match_data list"
  new_defects :: table
  common_defects_count :: nat
  new_defects_count :: nat
  total_defects :: nat
  pct_common :: real
  pct_new :: real
  has_depth_data :: bool
  has_wt_data :: bool
  calculate_growth :: bool

text \<open>
  The exceptions raised: \<open>ValueError\<close> with its message, and the \<open>KeyError\<close> of pandas for
  a selection of columns that the table lacks, with those columns.
\<close>

datatype error = ValueError string | KeyError "string list"

section \<open>compare_defects\<close>

text \<open>
  The function of \<open>multi_year_analysis.py\<close>; the line numbers are those of that file.
  Lines 51-58: the rows of the old table not yet matched and within the tolerance. The
  test on the anomaly type is commented out in the source and is no part of the mask.
\<close>

definition potential_matches ::
  "float_ops \<Rightarrow> defect_row list \<Rightarrow> nat set \<Rightarrow> cell \<Rightarrow> real \<Rightarrow> defect_row list" where
  "potential_matches F old_rows m_old nd tol =
     filter (\<lambda>r. defect_id r \<notin> m_old \<and> fle (fabs (fsub F (log_dist_m r) nd)) (Some tol))
       old_rows"

text \<open>
  \<open>Series.idxmin\<close>: the position of the first occurrence of the smallest value, NaN
  skipped, with the value found there; \<open>None\<close> when there is no value at all.
\<close>

fun idxmin :: "cell list \<Rightarrow> (nat \<times> real) option" where
  "idxmin [] = None"
| "idxmin (None # ds) = map_option (\<lambda>(j, y). (Suc j, y)) (idxmin ds)"
| "idxmin (Some x # ds) =
     (case idxmin ds of
        None \<Rightarrow> Some (0, x)
      | Some (j, y) \<Rightarrow> if x \<le> y then Some (0, x) else Some (Suc j, y))"

text \<open>Lines 78-89: the depth fields of a match.\<close>

definition growth_fields :: "float_ops \<Rightarrow> int \<Rightarrow> defect_row \<Rightarrow> defect_row \<Rightarrow> growth_data" where
  "growth_fields F year_diff closest_match new_defect =
     (let old_depth = depth_pct closest_match;
          new_depth = depth_pct new_defect
      in \<lparr>old_depth_pct = old_depth,
          new_depth_pct = new_depth,
          depth_change_pct = fsub F new_depth old_depth,
          growth_rate_pct_per_year =
            fdivc F (fsub F new_depth old_depth) (real_of_int year_diff),
          is_negative_growth = flt0 (fsub F new_depth old_depth)\<rparr>)"

text \<open>Lines 92-107: the millimetre fields of a match.\<close>

definition mm_fields :: "float_ops \<Rightarrow> int \<Rightarrow> defect_row \<Rightarrow> defect_row \<Rightarrow> mm_data" where
  "mm_fields F year_diff closest_match new_defect =
     (let old_depth = depth_pct closest_match;
          new_depth = depth_pct new_defect;
          old_wt = wt_nom_mm closest_match;
          new_wt = wt_nom_mm new_defect;
          avg_wt = fdivc F (fadd F old_wt new_wt) 2;
          old_mm = fdivc F (fmul F old_depth avg_wt) 100;
          new_mm = fdivc F (fmul F new_depth avg_wt) 100
      in \<lparr>old_depth_mm = old_mm,
          new_depth_mm = new_mm,
          depth_change_mm = fsub F new_mm old_mm,
          growth_rate_mm_per_year = fdivc F (fsub F new_mm old_mm) (real_of_int year_diff)\<rparr>)"

text \<open>Lines 68-107: the dictionary built for one match.\<close>

definition make_match ::
  "float_ops \<Rightarrow> bool \<Rightarrow> bool \<Rightarrow> bool \<Rightarrow> int \<Rightarrow> defect_row \<Rightarrow> real \<Rightarrow> defect_row \<Rightarrow> match_data" where
  "make_match F calc has_depth has_wt year_diff closest_match d new_defect =
     \<lparr>new_defect_id = defect_id new_defect,
      old_defect_id = defect_id closest_match,
      distance_diff = Some d,
      log_dist = log_dist_m new_defect,
      old_log_dist = log_dist_m closest_match,
      defect_type = anomaly_id new_defect,
      growth = (if calc \<and> has_depth
                then Some (growth_fields F year_diff closest_match new_defect) else None),
      mm = (if calc \<and> has_depth \<and> has_wt
            then Some (mm_fields F year_diff closest_match new_defect) else None)\<rparr>"

text \<open>
  Lines 49-111: the body of the loop for one row of the new table. The pool holds only
  rows whose distance passed the \<open>\<le>\<close> test, so none of its distances is NaN and
  \<open>idxmin\<close> always finds a row (lemma \<open>match_step_nonempty\<close> below); the branch for \<open>None\<close> is
  never taken.
\<close>

definition match_step ::
  "float_ops \<Rightarrow> bool \<Rightarrow> bool \<Rightarrow> bool \<Rightarrow> int \<Rightarrow> real \<Rightarrow> defect_row list \<Rightarrow> loop_state \<Rightarrow> defect_row
     \<Rightarrow> loop_state" where
  "match_step F calc has_depth has_wt year_diff tol old_rows s new_defect =
     (let potential = potential_matches F old_rows (matched_old s) (log_dist_m new_defect) tol
      in if potential = [] then s
         else
           let dists = map (\<lambda>r. fabs (fsub F (log_dist_m r) (log_dist_m new_defect)))
                         potential
           in case idxmin dists of
                None \<Rightarrow> s
              | Some (best_idx, d) \<Rightarrow>
                  let closest_match = potential ! best_idx
                  in \<lparr>matched_old = insert (defect_id closest_match) (matched_old s),
                      matched_new = insert (defect_id new_defect) (matched_new s),
                      matches = matches s
                        @ [make_match F calc has_depth has_wt year_diff closest_match d
                             new_defect]\<rparr>)"

text \<open>Lines 37-39: the first required column that one of the tables lacks.\<close>

definition missing_column :: "table \<Rightarrow> table \<Rightarrow> string option" where
  "missing_column old_df new_df =
     find (\<lambda>col. col \<notin> set (columns old_df) \<or> col \<notin> set (columns new_df))
       [''log dist. [m]'', ''component / anomaly identification'']"

text \<open>
  Lines 125-186: the result dictionary. The keys \<open>defect_type_distribution\<close> and
  \<open>growth_stats\<close> are derived from \<open>new_defects\<close> and \<open>matches_df\<close> and are not modelled.
\<close>

definition build_results :: "float_ops \<Rightarrow> bool \<Rightarrow> bool \<Rightarrow> bool \<Rightarrow> table \<Rightarrow> loop_state \<Rightarrow> result" where
  "build_results F calc has_depth has_wt new_df s =
     (let new_rows = filter (\<lambda>r. defect_id r \<notin> matched_new s) (rows new_df);
          total = length (rows new_df);
          common = length (matches s);
          new_cnt = length new_rows
      in \<lparr>matches_df = matches s,
          new_defects = \<lparr>columns = columns new_df, rows = new_rows\<rparr>,
          common_defects_count = common,
          new_defects_count = new_cnt,
          total_defects = total,
          pct_common = (if total \<noteq> 0
                        then f_mul F (f_div F (real common) (real total)) 100 else 0),
          pct_new = (if total \<noteq> 0
                     then f_mul F (f_div F (real new_cnt) (real total)) 100 else 0),
          has_depth_data = has_depth,
          has_wt_data = has_wt,
          calculate_growth = calc\<rparr>)"

text \<open>
  The function takes the float arithmetic, the addresses of the two tables the caller
  passes and the store, and returns its value (or the exception it raises) with the store it leaves. The
  local \<open>year_diff\<close> is bound only when growth is calculated and read only then.
\<close>

definition compare_defects ::
  "float_ops \<Rightarrow> nat \<Rightarrow> nat \<Rightarrow> int option \<Rightarrow> int option \<Rightarrow> real \<Rightarrow> heap \<Rightarrow> (error + result) \<times> heap" where
  "compare_defects F old_defects_df new_defects_df old_year new_year distance_tolerance h =
     (let (old_df, h1) = df_copy old_defects_df h;
          (new_df, h2) = df_copy new_defects_df h1;
          calc = (case (old_year, new_year) of
                    (Some oy, Some ny) \<Rightarrow> ny > oy | _ \<Rightarrow> False);
          year_diff = (case (old_year, new_year) of
                    (Some oy, Some ny) \<Rightarrow> ny - oy | _ \<Rightarrow> 0);
          has_depth = (''depth [%]'' \<in> set (columns (h2 ! old_df))
                       \<and> ''depth [%]'' \<in> set (columns (h2 ! new_df)));
          has_wt = (''wt nom [mm]'' \<in> set (columns (h2 ! old_df))
                    \<and> ''wt nom [mm]'' \<in> set (columns (h2 ! new_df)))
      in case missing_column (h2 ! old_df) (h2 ! new_df) of
           Some col \<Rightarrow> (Inl (ValueError (''Missing column: '' @ col)), h2)
         | None \<Rightarrow>
             let h3 = set_defect_id old_df h2;
                 h4 = set_defect_id new_df h3;
                 s = foldl (match_step F calc has_depth has_wt year_diff distance_tolerance
                              (rows (h4 ! old_df)))
                       \<lparr>matched_old = {}, matched_new = {}, matches = []\<rparr>
                       (rows (h4 ! new_df))
             in (Inr (build_results F calc has_depth has_wt (h4 ! new_df) s), h4))"

section \<open>The clock-position codec\<close>

text \<open>
  A value returned by one of the three functions of \<open>utils.py\<close>: \<open>None\<close>, a float (NaN
  included) or a string. \<open>is_null\<close> is \<open>pd.isna\<close> on such a value. A float argument is a
  \<open>cell\<close>, where \<open>None\<close> stands for both nulls, \<open>None\<close> and NaN.
\<close>

datatype pyval = PyNone | PyFloat cell | PyStr string

definition is_null :: "pyval \<Rightarrow> bool" where
  "is_null v \<longleftrightarrow> v = PyNone \<or> v = PyFloat None"

text \<open>
  Python's \<open>int\<close> on a float truncates toward zero. The remainder \<open>%\<close> of two
  positive floats is the result of \<open>fmod\<close>, which is exact; \<open>py_mod\<close> is used for a positive
  dividend only.
\<close>

definition py_int :: "real \<Rightarrow> int" where
  "py_int x = (if 0 \<le> x then \<lfloor>x\<rfloor> else \<lceil>x\<rceil>)"

definition py_mod :: "real \<Rightarrow> real \<Rightarrow> real" where
  "py_mod x m = x - m * of_int \<lfloor>x / m\<rfloor>"

text \<open>
  The format specifications \<open>d\<close> and \<open>02d\<close> of an f-string: the decimal digits, a minus
  sign for a negative number, and for \<open>02d\<close> zeros up to a width of two.
\<close>

fun digits :: "nat \<Rightarrow> string" where
  "digits n = (if n < 10 then [''0123456789'' ! n]
               else digits (n div 10) @ [''0123456789'' ! (n mod 10)])"

declare digits.simps [simp del]

definition fmt_d :: "int \<Rightarrow> string" where
  "fmt_d i = (if i < 0 then CHR ''-'' # digits (nat (- i)) else digits (nat i))"

definition fmt_02d :: "int \<Rightarrow> string" where
  "fmt_02d i = (if i < 0 then CHR ''-'' # digits (nat (- i))
                else if i < 10 then CHR ''0'' # digits (nat i) else digits (nat i))"

text \<open>
  Lines 4-11 of \<open>utils.py\<close>. The operators \<open>//\<close> and \<open>%\<close> of Python on floats are passed
  in as \<open>floor_div\<close> and \<open>float_mod\<close>.
\<close>

definition float_to_clock ::
  "float_ops \<Rightarrow> (real \<Rightarrow> real \<Rightarrow> real) \<Rightarrow> (real \<Rightarrow> real \<Rightarrow> real) \<Rightarrow> cell \<Rightarrow> pyval" where
  "float_to_clock F floor_div float_mod time_float =
     (case time_float of
        None \<Rightarrow> PyNone
      | Some t \<Rightarrow>
          let total_minutes = f_mul F (f_mul F t 24) 60;
              hours = py_int (floor_div total_minutes 60);
              minutes = round_half_even (float_mod total_minutes 60)
          in PyStr (fmt_02d hours @ '':'' @ fmt_02d minutes))"

text \<open>
  Lines 14-22: \<open>str.split\<close> on the colon, then \<open>int\<close> on both parts. The parser of
  integers is Python's own and is passed in as \<open>int_of_str\<close>; it answers \<open>None\<close> where
  \<open>int\<close> raises. A null argument has no \<open>split\<close>, a wrong number of parts cannot be
  unpacked: every exception ends in NaN.
\<close>

fun split_on :: "char \<Rightarrow> string \<Rightarrow> string list" where
  "split_on c [] = [[]]"
| "split_on c (x # xs) =
     (if x = c then [] # split_on c xs
      else (case split_on c xs of p # ps \<Rightarrow> (x # p) # ps | [] \<Rightarrow> [[x]]))"

definition parse_clock :: "float_ops \<Rightarrow> (string \<Rightarrow> int option) \<Rightarrow> string option \<Rightarrow> pyval" where
  "parse_clock F int_of_str clock_str =
     (case clock_str of
        None \<Rightarrow> PyFloat None
      | Some s \<Rightarrow>
          (case map int_of_str (split_on CHR '':'' s) of
             [Some hours, Some minutes] \<Rightarrow>
               PyFloat (Some (f_add F (real_of_int hours) (f_div F (real_of_int minutes) 60)))
           | _ \<Rightarrow> PyFloat None))"

text \<open>
  Lines 24-49.
\<close>

definition decimal_to_clock_str :: "float_ops \<Rightarrow> cell \<Rightarrow> pyval" where
  "decimal_to_clock_str F decimal_hours =
     (case decimal_hours of
        None \<Rightarrow> PyStr ''Unknown''
      | Some h \<Rightarrow>
          let w = (if h < 1 then f_add F h 12
                   else if h > 12 then (if py_mod h 12 = 0 then 12 else py_mod h 12)
                   else h);
              hours = py_int w;
              minutes = py_int (f_mul F (f_sub F w (real_of_int hours)) 60)
          in PyStr (fmt_d hours @ '':'' @ fmt_02d minutes))"

section \<open>The record splitter\<close>

text \<open>
  A cell of the raw survey table: missing, a number or a string. A row carries the
  cells of the columns that \<open>process_pipeline_data\<close> names; the table lists the columns
  it has, and the cell of an absent column is never read.
\<close>

datatype pdval = NaN | Num real | Str string

definition notna :: "pdval \<Rightarrow> bool" where
  "notna v = (case v of NaN \<Rightarrow> False | _ \<Rightarrow> True)"

record survey_row =
  c_log_dist :: pdval
  c_anomaly :: pdval
  c_joint_number :: pdval
  c_joint_length :: pdval
  c_wt_nom :: pdval
  c_up_weld :: pdval
  c_clock :: pdval
  c_depth :: pdval
  c_length :: pdval
  c_width :: pdval
  c_surface :: pdval











fun ffill :: "pdval \<Rightarrow> pdval list \<Rightarrow> pdval list" where
  "ffill prev [] = []"
| "ffill prev (v # vs) = (if notna v then v # ffill v vs else prev # ffill prev vs)"




definition has_size :: "survey_row \<Rightarrow> bool" where
  "has_size r \<longleftrightarrow> notna (c_length r) \<and> notna (c_width r)"


section \<open>Notions used to state the properties\<close>

text \<open>The column contract of lines 37-39 of \<open>compare_defects\<close>.\<close>

definition has_required_columns :: "table \<Rightarrow> bool" where
  "has_required_columns df \<longleftrightarrow>
     ''log dist. [m]'' \<in> set (columns df) \<and>
     ''component / anomaly identification'' \<in> set (columns df)"

text \<open>
  The locals \<open>calculate_growth\<close>, \<open>year_diff\<close>, \<open>has_depth_data\<close> and \<open>has_wt_data\<close> of
  lines 27-34, as functions of the arguments.
\<close>

definition growth_flag :: "int option \<Rightarrow> int option \<Rightarrow> bool" where
  "growth_flag oy ny = (case (oy, ny) of (Some x, Some y) \<Rightarrow> y > x | _ \<Rightarrow> False)"

definition years_between :: "int option \<Rightarrow> int option \<Rightarrow> int" where
  "years_between oy ny = (case (oy, ny) of (Some x, Some y) \<Rightarrow> y - x | _ \<Rightarrow> 0)"

definition both_have :: "string \<Rightarrow> table \<Rightarrow> table \<Rightarrow> bool" where
  "both_have col old_df new_df \<longleftrightarrow> col \<in> set (columns old_df) \<and> col \<in> set (columns new_df)"

text \<open>
  The greedy rule, read off the final list of matches. \<open>dist_between\<close> is the absolute
  distance difference between old row \<open>k\<close> and new row \<open>i\<close>; \<open>consumed_before ms i\<close> are the
  old ids matched by new rows that come before row \<open>i\<close>; \<open>candidate_pool\<close> is the pool of
  new row \<open>i\<close>, in the row order of the old table. \<open>greedy_choice\<close> says that row \<open>i\<close> has
  no match when its pool is empty, and otherwise is matched to a row of its pool at the
  smallest distance, the first such row of the old table. All of them take the float
  arithmetic: the differences are the ones the function computes.
\<close>

definition dist_between :: "float_ops \<Rightarrow> table \<Rightarrow> table \<Rightarrow> nat \<Rightarrow> nat \<Rightarrow> cell" where
  "dist_between F old_df new_df k i =
     fabs (fsub F (log_dist_m (rows old_df ! k)) (log_dist_m (rows new_df ! i)))"

definition consumed_before :: "match_data list \<Rightarrow> nat \<Rightarrow> nat set" where
  "consumed_before ms i = set (map old_defect_id (filter (\<lambda>m. new_defect_id m < i) ms))"

definition candidate_pool :: "float_ops \<Rightarrow> table \<Rightarrow> table \<Rightarrow> real \<Rightarrow> match_data list \<Rightarrow> nat \<Rightarrow> nat list" where
  "candidate_pool F old_df new_df tol ms i =
     filter (\<lambda>k. k \<notin> consumed_before ms i \<and> fle (dist_between F old_df new_df k i) (Some tol))
       [0..<length (rows old_df)]"

definition greedy_choice :: "float_ops \<Rightarrow> table \<Rightarrow> table \<Rightarrow> real \<Rightarrow> match_data list \<Rightarrow> nat \<Rightarrow> bool" where
  "greedy_choice F old_df new_df tol ms i =
     (let pool = candidate_pool F old_df new_df tol ms i
      in if pool = [] then (\<forall>m\<in>set ms. new_defect_id m \<noteq> i)
         else (\<exists>m\<in>set ms. new_defect_id m = i \<and> old_defect_id m \<in> set pool \<and>
                 distance_diff m = dist_between F old_df new_df (old_defect_id m) i \<and>
                 (\<forall>k\<in>set pool. fle (distance_diff m) (dist_between F old_df new_df k i) \<and>
                    (dist_between F old_df new_df k i = distance_diff m \<longrightarrow> old_defect_id m \<le> k))))"

text \<open>
  The same rule read on the exact differences of the log distances.
\<close>

definition exact_greedy_choice :: "table \<Rightarrow> table \<Rightarrow> real \<Rightarrow> nat \<Rightarrow> match_data list \<Rightarrow> bool" where
  "exact_greedy_choice old_df new_df tol i ms = greedy_choice exact_ops old_df new_df tol ms i"

text \<open>
  The invariant of the loop of lines 49-111 after \<open>i\<close> rows of the new table: the two
  sets hold the ids of the matches made, every match was built from the rows with its
  two ids, the matches are in row order, no old id occurs twice, and the greedy rule
  holds for the rows processed.
\<close>

definition loop_inv ::
  "float_ops \<Rightarrow> bool \<Rightarrow> bool \<Rightarrow> bool \<Rightarrow> int \<Rightarrow> real \<Rightarrow> table \<Rightarrow> table \<Rightarrow> nat \<Rightarrow> loop_state \<Rightarrow> bool" where
  "loop_inv F c dp wp yd tol od nw i s \<longleftrightarrow>
     matched_old s = old_defect_id ` set (matches s) \<and>
     matched_new s = new_defect_id ` set (matches s) \<and>
     (\<forall>m\<in>set (matches s). new_defect_id m < i \<and> old_defect_id m < length (rows od) \<and>
        (\<exists>y. m = make_match F c dp wp yd
                 ((rows od ! old_defect_id m)\<lparr>defect_id := old_defect_id m\<rparr>) y
                 ((rows nw ! new_defect_id m)\<lparr>defect_id := new_defect_id m\<rparr>))) \<and>
     sorted_wrt (<) (map new_defect_id (matches s)) \<and>
     distinct (map old_defect_id (matches s)) \<and>
     (\<forall>j<i. greedy_choice F od nw tol (matches s) j)"




text \<open>
  The clock string as the specification words it: 12 is added to values that are at
  most 0, values above 12 are reduced modulo 12, the hour is the floor and the minutes
  are rounded.
\<close>

definition clock_as_claimed :: "real \<Rightarrow> pyval" where
  "clock_as_claimed h =
     (let w = (if h \<le> 0 then h + 12
               else if h > 12 then (if py_mod h 12 = 0 then 12 else py_mod h 12)
               else h);
          hours = \<lfloor>w\<rfloor>;
          minutes = round_half_even ((w - real_of_int hours) * 60)
      in PyStr (fmt_d hours @ '':'' @ fmt_02d minutes))"







section \<open>Example inputs\<close>

definition ex_cols :: "string list" where
  "ex_cols = [''log dist. [m]'', ''component / anomaly identification'', ''depth [%]'',
              ''wt nom [mm]'']"

definition ex_row :: "real \<Rightarrow> real \<Rightarrow> real \<Rightarrow> defect_row" where
  "ex_row x d w = \<lparr>log_dist_m = Some x, anomaly_id = ''Corrosion'', depth_pct = Some d,
                   wt_nom_mm = Some w, defect_id = 0\<rparr>"

definition ex_heap :: heap where
  "ex_heap = [\<lparr>columns = ex_cols, rows = [ex_row 10 20 100]\<rparr>,
              \<lparr>columns = ex_cols, rows = [ex_row 10 24 100]\<rparr>]"

definition ex_greedy :: heap where
  "ex_greedy = [\<lparr>columns = ex_cols, rows = [ex_row 10 20 100, ex_row (21/2) 30 100]\<rparr>,
                \<lparr>columns = ex_cols, rows = [ex_row (83/8) 22 100, ex_row (21/2) 33 100]\<rparr>]"

definition ex_boundary :: heap where
  "ex_boundary = [\<lparr>columns = ex_cols, rows = [ex_row 10 20 100]\<rparr>,
                  \<lparr>columns = ex_cols, rows = [ex_row (41/4) 25 100]\<rparr>]"

definition ex_missing :: heap where
  "ex_missing = [\<lparr>columns = [''log dist. [m]'', ''depth [%]''], rows = [ex_row 10 20 100]\<rparr>,
                 \<lparr>columns = ex_cols, rows = [ex_row 10 24 100]\<rparr>]"

text \<open>
  Two inputs on which float64 rounds. The log distances are the doubles nearest to
  0.04, 0.22 and 0.13 in the first, to 0.04 and 0.14 in the second; the double nearest
  to 0.1 is \<open>3602879701896397 / 36028797018963968\<close>.
\<close>

definition ex_round_tie :: heap where
  "ex_round_tie =
     [\<lparr>columns = ex_cols,
       rows = [ex_row (5764607523034235 / 144115188075855872) 20 100,
               ex_row (7926335344172073 / 36028797018963968) 30 100]\<rparr>,
      \<lparr>columns = ex_cols,
       rows = [ex_row (1170935903116329 / 9007199254740992) 22 100]\<rparr>]"

definition ex_round_boundary :: heap where
  "ex_round_boundary =
     [\<lparr>columns = ex_cols,
       rows = [ex_row (5764607523034235 / 144115188075855872) 20 100]\<rparr>,
      \<lparr>columns = ex_cols,
       rows = [ex_row (1261007895663739 / 9007199254740992) 25 100]\<rparr>]"





section \<open>Lemmas\<close>

lemmas ex_defs = ex_greedy_def ex_boundary_def ex_missing_def ex_round_tie_def
  ex_round_boundary_def ex_heap_def ex_cols_def ex_row_def


lemmas codec_defs = decimal_to_clock_str_def clock_as_claimed_def
  py_int_def round_half_even_def py_mod_def fmt_d_def fmt_02d_def Let_def digits.simps
  ceiling_def

lemmas loop_defs = compare_defects_def df_copy_def set_defect_id_def missing_column_def
  assign_defect_id_def range_ids_def enumerate_eq_zip match_step_def potential_matches_def
  fsub_def fabs_def fle_def Let_def

subsection \<open>Rounding to float64\<close>

text \<open>
  \<open>round64_eval\<close> computes the rounding of a number whose binary exponent is known; the
  lemmas after it are the float64 operations that the examples need.
\<close>

lemma pow2_powr: "pow2 k = 2 powr (real_of_int k)"
  by (simp add: pow2_def powr_int)

lemma pow2_pos: "0 < pow2 k"
  by (simp add: pow2_def)

lemma floor_log2_eq:
  assumes "0 < x" "pow2 k \<le> x" "x < pow2 (k + 1)"
  shows "\<lfloor>log 2 x\<rfloor> = k"
proof -
  have "2 powr (real_of_int k) \<le> x \<and> x < 2 powr (real_of_int (k + 1))"
    using assms by (simp only: pow2_powr)
  then show ?thesis using assms(1) by (simp add: floor_log_eq_powr_iff)
qed

lemma round64_eval:
  assumes "x \<noteq> 0" "pow2 k \<le> \<bar>x\<bar>" "\<bar>x\<bar> < pow2 (k + 1)" "- 1022 \<le> k"
  shows "round64 x = real_of_int (round_half_even (x / pow2 (k - 52))) * pow2 (k - 52)"
proof -
  from assms(1) have "0 < \<bar>x\<bar>" by simp
  from floor_log2_eq[OF this assms(2,3)] have "\<lfloor>log 2 \<bar>x\<bar>\<rfloor> = k" .
  moreover from assms(4) have "max (k - 52) (- 1074) = k - 52" by simp
  ultimately show ?thesis using assms(1) by (simp add: round64_def Let_def)
qed

lemma r64_ieee_greedy_a: "round64 (- (3 / 8)) = - (3 / 8)"
  using round64_eval[of "- (3 / 8)" "- 2"]
  by (simp add: pow2_def round_half_even_def)

lemma ieee_greedy_a: "f_sub ieee 10 (83 / 8) = - (3 / 8)"
  by (simp add: ieee_def r64_ieee_greedy_a)

lemma r64_ieee_greedy_b: "round64 (1 / 8) = 1 / 8"
  using round64_eval[of "1 / 8" "- 3"]
  by (simp add: pow2_def round_half_even_def)

lemma ieee_greedy_b: "f_sub ieee (21 / 2) (83 / 8) = 1 / 8"
  by (simp add: ieee_def r64_ieee_greedy_b)

lemma r64_ieee_greedy_c: "round64 (- (1 / 2)) = - (1 / 2)"
  using round64_eval[of "- (1 / 2)" "- 1"]
  by (simp add: pow2_def round_half_even_def)

lemma ieee_greedy_c: "f_sub ieee 10 (21 / 2) = - (1 / 2)"
  by (simp add: ieee_def r64_ieee_greedy_c)

lemma ieee_greedy_d: "f_sub ieee (21 / 2) (21 / 2) = 0"
  by (simp add: ieee_def round64_def)

lemma r64_ieee_boundary: "round64 (- (1 / 4)) = - (1 / 4)"
  using round64_eval[of "- (1 / 4)" "- 2"]
  by (simp add: pow2_def round_half_even_def)

lemma ieee_boundary: "f_sub ieee 10 (41 / 4) = - (1 / 4)"
  by (simp add: ieee_def r64_ieee_boundary)

lemma r64_ieee_tie_a: "round64 (- (12970366926827029 / 144115188075855872)) = - (3242591731706757 / 36028797018963968)"
  using round64_eval[of "- (12970366926827029 / 144115188075855872)" "- 4"]
  by (simp add: pow2_def round_half_even_def)

lemma ieee_tie_a: "f_sub ieee (5764607523034235 / 144115188075855872) (1170935903116329 / 9007199254740992) = - (3242591731706757 / 36028797018963968)"
  by (simp add: ieee_def r64_ieee_tie_a)

lemma r64_ieee_tie_b: "round64 (3242591731706757 / 36028797018963968) = 3242591731706757 / 36028797018963968"
  using round64_eval[of "3242591731706757 / 36028797018963968" "- 4"]
  by (simp add: pow2_def round_half_even_def)

lemma ieee_tie_b: "f_sub ieee (7926335344172073 / 36028797018963968) (1170935903116329 / 9007199254740992) = 3242591731706757 / 36028797018963968"
  by (simp add: ieee_def r64_ieee_tie_b)

lemma r64_ieee_round_boundary: "round64 (- (14411518807585589 / 144115188075855872)) = - (3602879701896397 / 36028797018963968)"
  using round64_eval[of "- (14411518807585589 / 144115188075855872)" "- 4"]
  by (simp add: pow2_def round_half_even_def)

lemma ieee_round_boundary: "f_sub ieee (5764607523034235 / 144115188075855872) (1261007895663739 / 9007199254740992) = - (3602879701896397 / 36028797018963968)"
  by (simp add: ieee_def r64_ieee_round_boundary)
























lemma r64_ieee_clock_a1: "round64 (25 / 2) = 25 / 2"
  using round64_eval[of "25 / 2" "3"]
  by (simp add: pow2_def round_half_even_def)

lemma ieee_clock_a1: "f_add ieee (1 / 2) 12 = 25 / 2"
  by (simp add: ieee_def r64_ieee_clock_a1)

lemma r64_ieee_clock_a2: "round64 (1 / 2) = 1 / 2"
  using round64_eval[of "1 / 2" "- 1"]
  by (simp add: pow2_def round_half_even_def)

lemma ieee_clock_a2: "f_sub ieee (25 / 2) 12 = 1 / 2"
  by (simp add: ieee_def r64_ieee_clock_a2)

lemma r64_ieee_clock_a3: "round64 30 = 30"
  using round64_eval[of "30" "4"]
  by (simp add: pow2_def round_half_even_def)

lemma ieee_clock_a3: "f_mul ieee (1 / 2) 60 = 30"
  by (simp add: ieee_def r64_ieee_clock_a3)

lemma r64_ieee_clock_b1: "round64 (63 / 256) = 63 / 256"
  using round64_eval[of "63 / 256" "- 3"]
  by (simp add: pow2_def round_half_even_def)

lemma ieee_clock_b1: "f_sub ieee (319 / 256) 1 = 63 / 256"
  by (simp add: ieee_def r64_ieee_clock_b1)

lemma r64_ieee_clock_b2: "round64 (945 / 64) = 945 / 64"
  using round64_eval[of "945 / 64" "3"]
  by (simp add: pow2_def round_half_even_def)

lemma ieee_clock_b2: "f_mul ieee (63 / 256) 60 = 945 / 64"
  by (simp add: ieee_def r64_ieee_clock_b2)

lemma r64_ieee_clock_c1: "round64 (- (1 / 2)) = - (1 / 2)"
  using round64_eval[of "- (1 / 2)" "- 1"]
  by (simp add: pow2_def round_half_even_def)

lemma ieee_clock_c1: "f_add ieee (- (25 / 2)) 12 = - (1 / 2)"
  by (simp add: ieee_def r64_ieee_clock_c1)

lemma r64_ieee_clock_c2: "round64 (- (1 / 2)) = - (1 / 2)"
  using round64_eval[of "- (1 / 2)" "- 1"]
  by (simp add: pow2_def round_half_even_def)

lemma ieee_clock_c2: "f_sub ieee (- (1 / 2)) 0 = - (1 / 2)"
  by (simp add: ieee_def r64_ieee_clock_c2)

lemma r64_ieee_clock_c3: "round64 (- 30) = - 30"
  using round64_eval[of "- 30" "4"]
  by (simp add: pow2_def round_half_even_def)

lemma ieee_clock_c3: "f_mul ieee (- (1 / 2)) 60 = - 30"
  by (simp add: ieee_def r64_ieee_clock_c3)

lemma r64_ieee_clock_d1: "round64 (435948443929464013 / 36028797018963968) = 6811694436397875 / 562949953421312"
  using round64_eval[of "435948443929464013 / 36028797018963968" "3"]
  by (simp add: pow2_def round_half_even_def)

lemma ieee_clock_d1: "f_add ieee (3602879701896397 / 36028797018963968) 12 = 6811694436397875 / 562949953421312"
  by (simp add: ieee_def r64_ieee_clock_d1)

lemma r64_ieee_clock_d2: "round64 (56294995342131 / 562949953421312) = 56294995342131 / 562949953421312"
  using round64_eval[of "56294995342131 / 562949953421312" "- 4"]
  by (simp add: pow2_def round_half_even_def)

lemma ieee_clock_d2: "f_sub ieee (6811694436397875 / 562949953421312) 12 = 56294995342131 / 562949953421312"
  by (simp add: ieee_def r64_ieee_clock_d2)

lemma r64_ieee_clock_d3: "round64 (844424930131965 / 140737488355328) = 844424930131965 / 140737488355328"
  using round64_eval[of "844424930131965 / 140737488355328" "2"]
  by (simp add: pow2_def round_half_even_def)

lemma ieee_clock_d3: "f_mul ieee (56294995342131 / 562949953421312) 60 = 844424930131965 / 140737488355328"
  by (simp add: ieee_def r64_ieee_clock_d3)

lemma r64_ieee_clock_e1: "round64 (117093590311632895 / 9007199254740992) = 13"
  using round64_eval[of "117093590311632895 / 9007199254740992" "3"]
  by (simp add: pow2_def round_half_even_def)

lemma ieee_clock_e1: "f_add ieee (9007199254740991 / 9007199254740992) 12 = 13"
  by (simp add: ieee_def r64_ieee_clock_e1)

lemma ieee_clock_e2: "f_sub ieee 13 13 = 0"
  by (simp add: ieee_def round64_def)

lemma ieee_clock_e3: "f_mul ieee 0 60 = 0"
  by (simp add: ieee_def round64_def)

lemma r64_ieee_clock_f1: "round64 (7 / 8) = 7 / 8"
  using round64_eval[of "7 / 8" "- 1"]
  by (simp add: pow2_def round_half_even_def)

lemma ieee_clock_f1: "f_sub ieee (47 / 8) 5 = 7 / 8"
  by (simp add: ieee_def r64_ieee_clock_f1)

lemma r64_ieee_clock_f2: "round64 (105 / 2) = 105 / 2"
  using round64_eval[of "105 / 2" "5"]
  by (simp add: pow2_def round_half_even_def)

lemma ieee_clock_f2: "f_mul ieee (7 / 8) 60 = 105 / 2"
  by (simp add: ieee_def r64_ieee_clock_f2)

subsection \<open>The loop of compare_defects\<close>

lemma length_range_ids: "length (range_ids rs) = length rs"
  by (simp add: range_ids_def)

lemma nth_range_ids: "i < length rs \<Longrightarrow> range_ids rs ! i = (rs ! i)\<lparr>defect_id := i\<rparr>"
  by (simp add: range_ids_def nth_enumerate_eq)

lemma rows_assign: "rows (assign_defect_id df) = range_ids (rows df)"
  by (simp add: assign_defect_id_def)

lemma compare_defects_unfold:
  assumes "a < length h" "b < length h"
  shows "compare_defects F a b oy ny tol h =
     (let calc = (case (oy, ny) of (Some x, Some y) \<Rightarrow> y > x | _ \<Rightarrow> False);
          year_diff = (case (oy, ny) of (Some x, Some y) \<Rightarrow> y - x | _ \<Rightarrow> 0);
          has_depth = (''depth [%]'' \<in> set (columns (h ! a)) \<and> ''depth [%]'' \<in> set (columns (h ! b)));
          has_wt = (''wt nom [mm]'' \<in> set (columns (h ! a)) \<and> ''wt nom [mm]'' \<in> set (columns (h ! b)))
      in case missing_column (h ! a) (h ! b) of
           Some col \<Rightarrow> (Inl (ValueError (''Missing column: '' @ col)), h @ [h ! a, h ! b])
         | None \<Rightarrow>
            (Inr (build_results F calc has_depth has_wt (assign_defect_id (h ! b))
                (foldl (match_step F calc has_depth has_wt year_diff tol (range_ids (rows (h ! a))))
                   \<lparr>matched_old = {}, matched_new = {}, matches = []\<rparr>
                   (range_ids (rows (h ! b))))),
             h @ [assign_defect_id (h ! a), assign_defect_id (h ! b)]))"
  using assms
  by (simp add: compare_defects_def df_copy_def set_defect_id_def Let_def nth_append
      list_update_append rows_assign split: option.splits)

lemma idxmin_None: "idxmin ds = None \<longleftrightarrow> (\<forall>d\<in>set ds. d = None)"
  by (induction ds rule: idxmin.induct) (auto split: option.splits)

lemma idxmin_Some:
  "idxmin ds = Some (j, y) \<Longrightarrow>
     j < length ds \<and> ds ! j = Some y \<and>
     (\<forall>k<length ds. \<forall>z. ds ! k = Some z \<longrightarrow> y \<le> z) \<and>
     (\<forall>k<j. \<forall>z. ds ! k = Some z \<longrightarrow> y < z)"
proof (induction ds arbitrary: j y rule: idxmin.induct)
  case 1
  then show ?case by simp
next
  case (2 ds)
  then obtain j' where j': "idxmin ds = Some (j', y)" "j = Suc j'"
    by (auto split: option.splits)
  from "2.IH"[OF j'(1)] j'(2) show ?case
    by (auto simp: nth_Cons split: nat.splits)
next
  case (3 x ds)
  show ?case
  proof (cases "idxmin ds")
    case None
    with 3 have "j = 0" "y = x" by auto
    moreover from None have "\<forall>k<length ds. ds ! k = None" by (simp add: idxmin_None)
    ultimately show ?thesis by (auto simp: nth_Cons split: nat.splits)
  next
    case (Some p)
    obtain j' y' where p: "p = (j', y')" by (cases p)
    note IH = "3.IH"[OF Some[unfolded p]]
    show ?thesis
    proof (cases "x \<le> y'")
      case True
      with 3 Some p have "j = 0" "y = x" by auto
      with IH True show ?thesis by (auto simp: nth_Cons split: nat.splits)
    next
      case False
      with 3 Some p have "j = Suc j'" "y = y'" by auto
      with IH False show ?thesis by (auto simp: nth_Cons split: nat.splits)
    qed
  qed
qed

lemma range_ids_map: "range_ids rs = map (\<lambda>k. (rs ! k)\<lparr>defect_id := k\<rparr>) [0..<length rs]"
  by (rule nth_equalityI) (simp_all add: length_range_ids nth_range_ids)

lemma potential_range_ids:
  "potential_matches F (range_ids ro) M nd tol =
     map (\<lambda>k. (ro ! k)\<lparr>defect_id := k\<rparr>)
       [k \<leftarrow> [0..<length ro]. k \<notin> M \<and> fle (fabs (fsub F (log_dist_m (ro ! k)) nd)) (Some tol)]"
  unfolding potential_matches_def
  by (subst range_ids_map) (simp add: filter_map comp_def)

lemma fle_Some_iff: "fle a (Some t) \<longleftrightarrow> (\<exists>x. a = Some x \<and> x \<le> t)"
  by (cases a) (simp_all add: fle_def)

lemma sorted_filter_upt: "sorted_wrt (<) (filter P [0..<n])"
  by (rule sorted_wrt_filter) simp

lemma sorted_wrt_nth_less_iff:
  assumes "sorted_wrt (<) (P :: nat list)" "i < length P" "j < length P" "P ! i < P ! j"
  shows "i < j"
proof (rule ccontr)
  assume "\<not> i < j"
  then have "j \<le> i" by simp
  then consider "j = i" | "j < i" by linarith
  then show False
  proof cases
    case 1 with assms show ?thesis by simp
  next
    case 2
    with assms(1,2) have "P ! j < P ! i" by (simp add: sorted_wrt_nth_less)
    with assms(4) show ?thesis by simp
  qed
qed

lemma match_step_empty:
  assumes "[k \<leftarrow> [0..<length ro]. k \<notin> matched_old s
              \<and> fle (fabs (fsub F (log_dist_m (ro ! k)) (log_dist_m nd))) (Some tol)] = []"
  shows "match_step F c dp wp yd tol (range_ids ro) s nd = s"
  using assms by (simp add: match_step_def potential_range_ids)

lemma match_step_nonempty:
  fixes F ro nd s tol
  defines "dst \<equiv> \<lambda>k. fabs (fsub F (log_dist_m (ro ! k)) (log_dist_m nd))"
  defines "P \<equiv> [k \<leftarrow> [0..<length ro]. k \<notin> matched_old s \<and> fle (dst k) (Some tol)]"
  assumes ne: "P \<noteq> []"
  shows "\<exists>k y. k \<in> set P \<and> dst k = Some y
           \<and> (\<forall>k'\<in>set P. fle (Some y) (dst k') \<and> (dst k' = Some y \<longrightarrow> k \<le> k'))
           \<and> match_step F c dp wp yd tol (range_ids ro) s nd =
               \<lparr>matched_old = insert k (matched_old s),
                matched_new = insert (defect_id nd) (matched_new s),
                matches = matches s @ [make_match F c dp wp yd ((ro ! k)\<lparr>defect_id := k\<rparr>) y nd]\<rparr>"
proof -
  let ?ds = "map dst P"
  have allSome: "\<forall>k\<in>set P. \<exists>x. dst k = Some x \<and> x \<le> tol"
    by (auto simp: P_def fle_Some_iff)
  have "idxmin ?ds \<noteq> None"
  proof
    assume "idxmin ?ds = None"
    then have "\<forall>d\<in>set ?ds. d = None" by (simp add: idxmin_None)
    moreover from ne obtain k where "k \<in> set P" by (cases P) auto
    ultimately show False using allSome by force
  qed
  then obtain j y where jy: "idxmin ?ds = Some (j, y)" by (cases "idxmin ?ds") auto
  from idxmin_Some[OF jy] have j: "j < length P" and dj: "dst (P ! j) = Some y"
    and mn: "\<forall>k<length P. \<forall>z. dst (P ! k) = Some z \<longrightarrow> y \<le> z"
    and fst: "\<forall>k<j. \<forall>z. dst (P ! k) = Some z \<longrightarrow> y < z"
    by auto
  have srt: "sorted_wrt (<) P" unfolding P_def by (rule sorted_filter_upt)
  have min: "\<forall>k'\<in>set P. fle (Some y) (dst k') \<and> (dst k' = Some y \<longrightarrow> P ! j \<le> k')"
  proof
    fix k' assume k': "k' \<in> set P"
    then obtain p where p: "p < length P" "P ! p = k'" by (auto simp: in_set_conv_nth)
    from allSome k' obtain z where z: "dst k' = Some z" by auto
    with mn p have yz: "y \<le> z" by auto
    have "dst k' = Some y \<longrightarrow> P ! j \<le> k'"
    proof
      assume e: "dst k' = Some y"
      show "P ! j \<le> k'"
      proof (rule ccontr)
        assume "\<not> P ! j \<le> k'"
        then have "P ! p < P ! j" using p by simp
        then have "p < j" using srt p(1) j by (rule sorted_wrt_nth_less_iff[rotated 3])
        with fst e p show False by auto
      qed
    qed
    with z yz show "fle (Some y) (dst k') \<and> (dst k' = Some y \<longrightarrow> P ! j \<le> k')"
      by (simp add: fle_def)
  qed
  have step: "match_step F c dp wp yd tol (range_ids ro) s nd =
               \<lparr>matched_old = insert (P ! j) (matched_old s),
                matched_new = insert (defect_id nd) (matched_new s),
                matches = matches s @ [make_match F c dp wp yd ((ro ! (P ! j))\<lparr>defect_id := P ! j\<rparr>) y nd]\<rparr>"
  proof -
    have pot: "potential_matches F (range_ids ro) (matched_old s) (log_dist_m nd) tol =
        map (\<lambda>k. (ro ! k)\<lparr>defect_id := k\<rparr>) P"
      by (simp add: potential_range_ids P_def dst_def)
    have ds: "map ((\<lambda>r. fabs (fsub F (log_dist_m r) (log_dist_m nd)))
                \<circ> (\<lambda>k. (ro ! k)\<lparr>defect_id := k\<rparr>)) P = map dst P"
      by (simp add: dst_def comp_def)
    show ?thesis
      unfolding match_step_def pot using ne jy j by (simp add: Let_def ds)
  qed
  from j have "P ! j \<in> set P" by simp
  with dj min step show ?thesis by blast
qed

lemma consumed_before_snoc:
  "j \<le> new_defect_id m \<Longrightarrow> consumed_before (ms @ [m]) j = consumed_before ms j"
  by (simp add: consumed_before_def)

lemma candidate_pool_snoc:
  "j \<le> new_defect_id m \<Longrightarrow>
     candidate_pool F od nw tol (ms @ [m]) j = candidate_pool F od nw tol ms j"
  by (simp add: candidate_pool_def consumed_before_snoc)

lemma greedy_choice_snoc:
  assumes "greedy_choice F od nw tol ms j" "j < new_defect_id m"
  shows "greedy_choice F od nw tol (ms @ [m]) j"
proof -
  have p: "candidate_pool F od nw tol (ms @ [m]) j = candidate_pool F od nw tol ms j"
    using assms(2) by (simp add: candidate_pool_snoc)
  show ?thesis
    using assms unfolding greedy_choice_def p Let_def
    by (auto split: if_splits)
qed

lemma consumed_before_all:
  "\<forall>m\<in>set ms. new_defect_id m < i \<Longrightarrow> consumed_before ms i = old_defect_id ` set ms"
proof -
  assume "\<forall>m\<in>set ms. new_defect_id m < i"
  then have "filter (\<lambda>m. new_defect_id m < i) ms = ms" by simp
  then show ?thesis by (simp add: consumed_before_def)
qed

lemma make_match_ids [simp]:
  "new_defect_id (make_match F c dp wp yd om y nd) = defect_id nd"
  "old_defect_id (make_match F c dp wp yd om y nd) = defect_id om"
  "distance_diff (make_match F c dp wp yd om y nd) = Some y"
  by (simp_all add: make_match_def)

lemma loop_inv_init:
  "loop_inv F c dp wp yd tol od nw 0 \<lparr>matched_old = {}, matched_new = {}, matches = []\<rparr>"
  by (simp add: loop_inv_def)

lemma loop_inv_step:
  assumes inv: "loop_inv F c dp wp yd tol od nw i s" and i: "i < length (rows nw)"
  shows "loop_inv F c dp wp yd tol od nw (Suc i)
           (match_step F c dp wp yd tol (range_ids (rows od)) s (range_ids (rows nw) ! i))"
proof -
  let ?ro = "rows od" and ?nd = "(rows nw ! i)\<lparr>defect_id := i\<rparr>"
  let ?ms = "matches s"
  let ?P = "[k \<leftarrow> [0..<length ?ro]. k \<notin> matched_old s
              \<and> fle (fabs (fsub F (log_dist_m (?ro ! k)) (log_dist_m ?nd))) (Some tol)]"
  have nd: "range_ids (rows nw) ! i = ?nd" using i by (simp add: nth_range_ids)
  from inv have mo: "matched_old s = old_defect_id ` set ?ms"
    and mn: "matched_new s = new_defect_id ` set ?ms"
    and all: "\<forall>m\<in>set ?ms. new_defect_id m < i \<and> old_defect_id m < length ?ro \<and>
        (\<exists>y. m = make_match F c dp wp yd
                 ((?ro ! old_defect_id m)\<lparr>defect_id := old_defect_id m\<rparr>) y
                 ((rows nw ! new_defect_id m)\<lparr>defect_id := new_defect_id m\<rparr>))"
    and srt: "sorted_wrt (<) (map new_defect_id ?ms)"
    and dis: "distinct (map old_defect_id ?ms)"
    and gr: "\<forall>j<i. greedy_choice F od nw tol ?ms j"
    by (simp_all add: loop_inv_def)
  from all have lt: "\<forall>m\<in>set ?ms. new_defect_id m < i" by blast
  have cons: "consumed_before ?ms i = matched_old s"
    using lt mo by (simp add: consumed_before_all)
  have pool: "candidate_pool F od nw tol ?ms i = ?P"
    by (simp add: candidate_pool_def cons dist_between_def)
  show ?thesis
  proof (cases "?P = []")
    case True
    then have st: "match_step F c dp wp yd tol (range_ids ?ro) s ?nd = s"
      by (rule match_step_empty)
    have "greedy_choice F od nw tol ?ms i"
      using True lt by (auto simp: greedy_choice_def pool)
    with gr have "\<forall>j<Suc i. greedy_choice F od nw tol ?ms j"
      by (auto simp: less_Suc_eq)
    moreover from all have "\<forall>m\<in>set ?ms. new_defect_id m < Suc i \<and> old_defect_id m < length ?ro \<and>
        (\<exists>y. m = make_match F c dp wp yd
                 ((?ro ! old_defect_id m)\<lparr>defect_id := old_defect_id m\<rparr>) y
                 ((rows nw ! new_defect_id m)\<lparr>defect_id := new_defect_id m\<rparr>))"
      by (auto simp: less_Suc_eq)
    ultimately show ?thesis
      unfolding nd st using mo mn srt dis by (simp add: loop_inv_def)
  next
    case False
    from match_step_nonempty[OF False, where c=c and dp=dp and wp=wp and yd=yd]
    obtain k y where k: "k \<in> set ?P"
      and dk: "fabs (fsub F (log_dist_m (?ro ! k)) (log_dist_m ?nd)) = Some y"
      and mink: "\<forall>k'\<in>set ?P. fle (Some y) (fabs (fsub F (log_dist_m (?ro ! k')) (log_dist_m ?nd)))
          \<and> (fabs (fsub F (log_dist_m (?ro ! k')) (log_dist_m ?nd)) = Some y \<longrightarrow> k \<le> k')"
      and st: "match_step F c dp wp yd tol (range_ids ?ro) s ?nd =
               \<lparr>matched_old = insert k (matched_old s),
                matched_new = insert (defect_id ?nd) (matched_new s),
                matches = ?ms @ [make_match F c dp wp yd ((?ro ! k)\<lparr>defect_id := k\<rparr>) y ?nd]\<rparr>"
      by blast
    let ?m = "make_match F c dp wp yd ((?ro ! k)\<lparr>defect_id := k\<rparr>) y ?nd"
    have idn: "new_defect_id ?m = i" and ido: "old_defect_id ?m = k"
      and dd: "distance_diff ?m = Some y" by simp_all
    from k have klen: "k < length ?ro" and knew: "k \<notin> matched_old s" by auto
    have a1: "insert k (matched_old s) = old_defect_id ` set (?ms @ [?m])"
      using mo ido by auto
    have a2: "insert (defect_id ?nd) (matched_new s) = new_defect_id ` set (?ms @ [?m])"
      using mn idn by auto
    have a3: "\<forall>m\<in>set (?ms @ [?m]). new_defect_id m < Suc i \<and> old_defect_id m < length ?ro \<and>
        (\<exists>y. m = make_match F c dp wp yd
                 ((?ro ! old_defect_id m)\<lparr>defect_id := old_defect_id m\<rparr>) y
                 ((rows nw ! new_defect_id m)\<lparr>defect_id := new_defect_id m\<rparr>))"
    proof
      fix m assume "m \<in> set (?ms @ [?m])"
      then consider "m \<in> set ?ms" | "m = ?m" by auto
      then show "new_defect_id m < Suc i \<and> old_defect_id m < length ?ro \<and>
        (\<exists>y. m = make_match F c dp wp yd
                 ((?ro ! old_defect_id m)\<lparr>defect_id := old_defect_id m\<rparr>) y
                 ((rows nw ! new_defect_id m)\<lparr>defect_id := new_defect_id m\<rparr>))"
      proof cases
        case 1
        with all show ?thesis by (auto simp: less_Suc_eq)
      next
        case 2
        show ?thesis unfolding 2 idn ido using klen by blast
      qed
    qed
    have a4: "sorted_wrt (<) (map new_defect_id (?ms @ [?m]))"
      using srt lt idn by (simp add: sorted_wrt_append)
    have a5: "distinct (map old_defect_id (?ms @ [?m]))"
      using dis knew mo ido by simp
    have pool': "candidate_pool F od nw tol (?ms @ [?m]) i = ?P"
      using pool idn by (simp add: candidate_pool_snoc)
    have gi: "greedy_choice F od nw tol (?ms @ [?m]) i"
      unfolding greedy_choice_def pool' Let_def
      using False k dk mink idn ido dd
      by (auto simp: dist_between_def intro!: bexI[of _ ?m])
    have a6: "\<forall>j<Suc i. greedy_choice F od nw tol (?ms @ [?m]) j"
    proof (intro allI impI)
      fix j assume "j < Suc i"
      then consider "j < i" | "j = i" by linarith
      then show "greedy_choice F od nw tol (?ms @ [?m]) j"
      proof cases
        case 1
        with gr idn show ?thesis by (simp add: greedy_choice_snoc)
      next
        case 2
        with gi show ?thesis by simp
      qed
    qed
    show ?thesis
      unfolding nd st loop_inv_def using a1 a2 a3 a4 a5 a6 by simp
  qed
qed

lemma loop_inv_take:
  "i \<le> length (rows nw) \<Longrightarrow>
     loop_inv F c dp wp yd tol od nw i
       (foldl (match_step F c dp wp yd tol (range_ids (rows od)))
          \<lparr>matched_old = {}, matched_new = {}, matches = []\<rparr>
          (take i (range_ids (rows nw))))"
proof (induction i)
  case 0
  show ?case by (simp add: loop_inv_init)
next
  case (Suc i)
  then have i: "i < length (rows nw)" by simp
  then have "take (Suc i) (range_ids (rows nw)) =
      take i (range_ids (rows nw)) @ [range_ids (rows nw) ! i]"
    by (simp add: take_Suc_conv_app_nth length_range_ids)
  with Suc i show ?case by (simp add: loop_inv_step)
qed

lemma loop_inv_final:
  "loop_inv F c dp wp yd tol od nw (length (rows nw))
       (foldl (match_step F c dp wp yd tol (range_ids (rows od)))
          \<lparr>matched_old = {}, matched_new = {}, matches = []\<rparr>
          (range_ids (rows nw)))"
  using loop_inv_take[where i="length (rows nw)" and nw=nw and F=F and c=c and dp=dp and wp=wp
      and yd=yd and tol=tol and od=od]
  by (simp add: length_range_ids)

subsection \<open>The column check, the result and the counts\<close>

lemma missing_column_None:
  "missing_column od nw = None \<longleftrightarrow> has_required_columns od \<and> has_required_columns nw"
  by (auto simp: missing_column_def has_required_columns_def)

lemma missing_column_Some:
  "missing_column od nw = Some col \<Longrightarrow>
     col \<in> {''log dist. [m]'', ''component / anomaly identification''} \<and>
     (col \<notin> set (columns od) \<or> col \<notin> set (columns nw))"
  by (auto simp: missing_column_def split: if_splits)

lemma compare_defects_accepted:
  assumes "a < length h" "b < length h"
    and "has_required_columns (h ! a)" "has_required_columns (h ! b)"
  shows "compare_defects F a b oy ny tol h =
     (Inr (build_results F (growth_flag oy ny) (both_have ''depth [%]'' (h ! a) (h ! b))
             (both_have ''wt nom [mm]'' (h ! a) (h ! b)) (assign_defect_id (h ! b))
             (foldl (match_step F (growth_flag oy ny) (both_have ''depth [%]'' (h ! a) (h ! b))
                       (both_have ''wt nom [mm]'' (h ! a) (h ! b)) (years_between oy ny) tol
                       (range_ids (rows (h ! a))))
                \<lparr>matched_old = {}, matched_new = {}, matches = []\<rparr>
                (range_ids (rows (h ! b))))),
      h @ [assign_defect_id (h ! a), assign_defect_id (h ! b)])"
proof -
  from assms(3,4) have "missing_column (h ! a) (h ! b) = None"
    by (simp add: missing_column_None)
  then show ?thesis
    unfolding compare_defects_unfold[OF assms(1,2)] growth_flag_def years_between_def
      both_have_def
    by (simp add: Let_def)
qed

lemma compare_defects_rejected:
  assumes "a < length h" "b < length h" "missing_column (h ! a) (h ! b) = Some col"
  shows "compare_defects F a b oy ny tol h =
     (Inl (ValueError (''Missing column: '' @ col)), h @ [h ! a, h ! b])"
  using assms(3) unfolding compare_defects_unfold[OF assms(1,2)] by (simp add: Let_def)

lemma matches_build_results [simp]: "matches_df (build_results F c dp wp nw s) = matches s"
  by (simp add: build_results_def Let_def)

lemma count_unmatched:
  assumes "M \<subseteq> {..<length rn}"
  shows "length (filter (\<lambda>r. defect_id r \<notin> M) (range_ids rn)) + card M = length rn"
proof -
  have "length (filter (\<lambda>r. defect_id r \<notin> M) (range_ids rn))
      = length (filter (\<lambda>k. k \<notin> M) [0..<length rn])"
    by (subst range_ids_map) (simp add: filter_map comp_def)
  moreover have "length (filter (\<lambda>k. k \<in> M) [0..<length rn]) = card M"
  proof -
    have "{x. x \<in> M} \<inter> set [0..<length rn] = M" using assms by auto
    then show ?thesis by (simp add: distinct_length_filter)
  qed
  moreover have "length (filter (\<lambda>k. k \<in> M) [0..<length rn])
      + length (filter (\<lambda>k. k \<notin> M) [0..<length rn]) = length [0..<length rn]"
    by (rule sum_length_filter_compl)
  ultimately show ?thesis by simp
qed

lemma loop_inv_counts:
  assumes "loop_inv F c dp wp yd tol od nw (length (rows nw)) s"
  shows "length (matches s)
       + length (filter (\<lambda>r. defect_id r \<notin> matched_new s) (range_ids (rows nw)))
       = length (rows nw)"
proof -
  from assms have mn: "matched_new s = new_defect_id ` set (matches s)"
    and lt: "\<forall>m\<in>set (matches s). new_defect_id m < length (rows nw)"
    and srt: "sorted_wrt (<) (map new_defect_id (matches s))"
    by (auto simp: loop_inv_def)
  from srt have "distinct (map new_defect_id (matches s))"
    by (simp add: strict_sorted_iff)
  then have "card (set (map new_defect_id (matches s))) = length (map new_defect_id (matches s))"
    by (rule distinct_card)
  then have c: "card (matched_new s) = length (matches s)" by (simp add: mn)
  from mn lt have "matched_new s \<subseteq> {..<length (rows nw)}" by auto
  from count_unmatched[OF this] c show ?thesis by simp
qed

lemma compare_defects_loop:
  assumes "a < length h" "b < length h"
    and "has_required_columns (h ! a)" "has_required_columns (h ! b)"
  shows "\<exists>s res. fst (compare_defects F a b oy ny tol h) = Inr res \<and>
           res = build_results F (growth_flag oy ny) (both_have ''depth [%]'' (h ! a) (h ! b))
                   (both_have ''wt nom [mm]'' (h ! a) (h ! b)) (assign_defect_id (h ! b)) s \<and>
           loop_inv F (growth_flag oy ny) (both_have ''depth [%]'' (h ! a) (h ! b))
             (both_have ''wt nom [mm]'' (h ! a) (h ! b)) (years_between oy ny) tol
             (h ! a) (h ! b) (length (rows (h ! b))) s"
  unfolding compare_defects_accepted[OF assms]
  using loop_inv_final by auto

subsection \<open>Rates in exact arithmetic, and the examples\<close>





lemma ex_greedy_matches:
  "fst (compare_defects ieee 0 1 None None 1 ex_greedy) = Inr
     (build_results ieee False True True (assign_defect_id (ex_greedy ! 1))
        \<lparr>matched_old = {0, 1}, matched_new = {1, 0},
         matches = [make_match ieee False True True 0 ((ex_row (21/2) 30 100)\<lparr>defect_id := 1\<rparr>)
                      (1/8) ((ex_row (83/8) 22 100)\<lparr>defect_id := 0\<rparr>),
                    make_match ieee False True True 0 ((ex_row 10 20 100)\<lparr>defect_id := 0\<rparr>)
                      (1/2) ((ex_row (21/2) 33 100)\<lparr>defect_id := 1\<rparr>)]\<rparr>)"
  by (simp add: ex_defs loop_defs ieee_greedy_a ieee_greedy_b ieee_greedy_c ieee_greedy_d)

lemma ex_round_tie_matches:
  "fst (compare_defects ieee 0 1 None None (3602879701896397 / 36028797018963968) ex_round_tie)
     = Inr
     (build_results ieee False True True (assign_defect_id (ex_round_tie ! 1))
        \<lparr>matched_old = {0}, matched_new = {0},
         matches = [make_match ieee False True True 0
                      ((ex_row (5764607523034235 / 144115188075855872) 20 100)\<lparr>defect_id := 0\<rparr>)
                      (3242591731706757 / 36028797018963968)
                      ((ex_row (1170935903116329 / 9007199254740992) 22 100)
                          \<lparr>defect_id := 0\<rparr>)]\<rparr>)"
  by (simp add: ex_defs loop_defs ieee_tie_a ieee_tie_b)

lemma ex_round_boundary_matches:
  "fst (compare_defects ieee 0 1 None None (3602879701896397 / 36028797018963968)
          ex_round_boundary)
     = Inr
     (build_results ieee False True True (assign_defect_id (ex_round_boundary ! 1))
        \<lparr>matched_old = {0}, matched_new = {0},
         matches = [make_match ieee False True True 0
                      ((ex_row (5764607523034235 / 144115188075855872) 20 100)\<lparr>defect_id := 0\<rparr>)
                      (3602879701896397 / 36028797018963968)
                      ((ex_row (1261007895663739 / 9007199254740992) 25 100)
                          \<lparr>defect_id := 0\<rparr>)]\<rparr>)"
  by (simp add: ex_defs loop_defs ieee_round_boundary)

lemma ex_heap_ok:
  "(0::nat) < length ex_heap" "(1::nat) < length ex_heap"
  "has_required_columns (ex_heap ! 0)" "has_required_columns (ex_heap ! 1)"
  by (simp_all add: ex_defs has_required_columns_def)

lemma ex_greedy_ok:
  "(0::nat) < length ex_greedy" "(1::nat) < length ex_greedy"
  "has_required_columns (ex_greedy ! 0)" "has_required_columns (ex_greedy ! 1)"
  by (simp_all add: ex_defs has_required_columns_def)

lemma ex_boundary_ok:
  "(0::nat) < length ex_boundary" "(1::nat) < length ex_boundary"
  "has_required_columns (ex_boundary ! 0)" "has_required_columns (ex_boundary ! 1)"
  "rows (ex_boundary ! 0) = [ex_row 10 20 100]"
  "rows (ex_boundary ! 1) = [ex_row (41/4) 25 100]"
  "log_dist_m (ex_row 10 20 100) = Some 10"
  "log_dist_m (ex_row (41/4) 25 100) = Some (41/4)"
  by (simp_all add: ex_defs has_required_columns_def)

lemma ex_missing_ok:
  "(0::nat) < length ex_missing" "(1::nat) < length ex_missing"
  "\<not> (has_required_columns (ex_missing ! 0) \<and> has_required_columns (ex_missing ! 1))"
  by (simp_all add: ex_defs has_required_columns_def)

subsection \<open>The clock string\<close>

lemma py_mod_12_range: "0 \<le> py_mod h 12 \<and> py_mod h 12 < 12"
proof -
  have "of_int \<lfloor>h / 12\<rfloor> \<le> h / 12" "h / 12 < of_int \<lfloor>h / 12\<rfloor> + 1"
    by linarith+
  then show ?thesis by (simp add: py_mod_def field_simps)
qed

lemma py_int_floor: "0 \<le> x \<Longrightarrow> py_int x = \<lfloor>x\<rfloor>"
  by (simp add: py_int_def)

subsection \<open>The record splitter\<close>

lemma length_ffill [simp]: "length (ffill p vs) = length vs"
  by (induction vs arbitrary: p) auto




lemma has_size_joint_update [simp]: "has_size (r\<lparr>c_joint_number := v\<rparr>) = has_size r"
  by (simp add: has_size_def)






section \<open>The properties\<close>

text \<open>
  Read on the exact differences, the rule of the smallest difference fails. The old
  rows are at the doubles nearest to 0.04 and 0.22, the new row at the double nearest
  to 0.13, the tolerance is the double nearest to 0.1. The second old row is nearer,
  by \<open>2^-57\<close>, and both are within the tolerance; both float64 differences are the double
  nearest to 0.09, and the first old row is matched.
\<close>

theorem greedy_exact_claim_counterexample:
  "\<bar>7926335344172073 / 36028797018963968 - 1170935903116329 / 9007199254740992\<bar>
     < \<bar>5764607523034235 / 144115188075855872 - 1170935903116329 / 9007199254740992 :: real\<bar> \<and>
   \<bar>5764607523034235 / 144115188075855872 - 1170935903116329 / 9007199254740992\<bar>
     \<le> (3602879701896397 / 36028797018963968 :: real) \<and>
   map_sum id (map old_defect_id \<circ> matches_df)
     (fst (compare_defects ieee 0 1 None None (3602879701896397 / 36028797018963968)
             ex_round_tie)) = Inr [0] \<and>
   map_sum id (exact_greedy_choice (ex_round_tie ! 0) (ex_round_tie ! 1)
                 (3602879701896397 / 36028797018963968) 0 \<circ> matches_df)
     (fst (compare_defects ieee 0 1 None None (3602879701896397 / 36028797018963968)
             ex_round_tie)) = Inr False"
  unfolding ex_round_tie_matches
  by (simp add: build_results_def make_match_def exact_greedy_choice_def greedy_choice_def
      candidate_pool_def consumed_before_def dist_between_def ex_defs fsub_def fabs_def fle_def
      exact_ops_def upt_rec Let_def)

text \<open>
  Claim C1, as amended. The distance differences are the float64 differences that the
  function computes, whatever the arithmetic rounds them to. For two tables with the
  required columns \<open>compare_defects\<close> returns a result whose matches are in the row
  order of the new table; every new row with a non-empty candidate pool (old rows not
  matched by an earlier new row and with a computed absolute difference within the
  tolerance) is matched to the row of its pool with the smallest computed absolute
  difference, the first such row of the old table when several have it; a new row
  with an empty pool has no match; and no old row is matched twice, so a later new row
  never takes an old row that is already matched, however close it is.
\<close>

theorem compare_defects_greedy:
  assumes "a < length h" "b < length h"
    and "has_required_columns (h ! a)" "has_required_columns (h ! b)"
  shows "\<exists>res. fst (compare_defects F a b oy ny tol h) = Inr res \<and>
           sorted_wrt (<) (map new_defect_id (matches_df res)) \<and>
           (\<forall>m\<in>set (matches_df res). new_defect_id m < length (rows (h ! b)) \<and>
              old_defect_id m < length (rows (h ! a))) \<and>
           (\<forall>i<length (rows (h ! b)). greedy_choice F (h ! a) (h ! b) tol (matches_df res) i) \<and>
           distinct (map old_defect_id (matches_df res))"
proof -
  from compare_defects_loop[OF assms, where F=F and oy=oy and ny=ny and tol=tol] obtain s res
    where "fst (compare_defects F a b oy ny tol h) = Inr res"
      and "matches_df res = matches s"
      and "loop_inv F (growth_flag oy ny) (both_have ''depth [%]'' (h ! a) (h ! b))
             (both_have ''wt nom [mm]'' (h ! a) (h ! b)) (years_between oy ny) tol
             (h ! a) (h ! b) (length (rows (h ! b))) s"
    by auto
  then show ?thesis by (auto simp: loop_inv_def)
qed

theorem compare_defects_greedy_witness:
  "(0::nat) < length ex_greedy \<and> (1::nat) < length ex_greedy \<and>
   has_required_columns (ex_greedy ! 0) \<and> has_required_columns (ex_greedy ! 1) \<and>
   (\<exists>res. fst (compare_defects ieee 0 1 None None 1 ex_greedy) = Inr res \<and>
      map new_defect_id (matches_df res) = [0, 1] \<and>
      map old_defect_id (matches_df res) = [1, 0] \<and>
      candidate_pool ieee (ex_greedy ! 0) (ex_greedy ! 1) 1 (matches_df res) 0 = [0, 1] \<and>
      candidate_pool ieee (ex_greedy ! 0) (ex_greedy ! 1) 1 (matches_df res) 1 = [0] \<and>
      sorted_wrt (<) (map new_defect_id (matches_df res)) \<and>
      (\<forall>m\<in>set (matches_df res). new_defect_id m < length (rows (ex_greedy ! 1)) \<and>
          old_defect_id m < length (rows (ex_greedy ! 0))) \<and>
      (\<forall>i<length (rows (ex_greedy ! 1)).
          greedy_choice ieee (ex_greedy ! 0) (ex_greedy ! 1) 1 (matches_df res) i) \<and>
      distinct (map old_defect_id (matches_df res)))"
proof -
  have h1: "(0::nat) < length ex_greedy" and h2: "(1::nat) < length ex_greedy"
    by (simp_all add: ex_defs)
  have h3: "has_required_columns (ex_greedy ! 0)" and h4: "has_required_columns (ex_greedy ! 1)"
    by (simp_all add: ex_defs has_required_columns_def)
  from compare_defects_greedy[OF h1 h2 h3 h4, where F=ieee and oy=None and ny=None and tol=1]
  obtain res where r: "fst (compare_defects ieee 0 1 None None 1 ex_greedy) = Inr res"
    and g: "sorted_wrt (<) (map new_defect_id (matches_df res))"
      "\<forall>m\<in>set (matches_df res). new_defect_id m < length (rows (ex_greedy ! 1)) \<and>
          old_defect_id m < length (rows (ex_greedy ! 0))"
      "\<forall>i<length (rows (ex_greedy ! 1)).
          greedy_choice ieee (ex_greedy ! 0) (ex_greedy ! 1) 1 (matches_df res) i"
      "distinct (map old_defect_id (matches_df res))"
    by blast
  from r ex_greedy_matches have m: "matches_df res =
       [make_match ieee False True True 0 ((ex_row (21/2) 30 100)\<lparr>defect_id := 1\<rparr>) (1/8)
                      ((ex_row (83/8) 22 100)\<lparr>defect_id := 0\<rparr>),
        make_match ieee False True True 0 ((ex_row 10 20 100)\<lparr>defect_id := 0\<rparr>) (1/2)
                      ((ex_row (21/2) 33 100)\<lparr>defect_id := 1\<rparr>)]"
    by simp
  have p: "candidate_pool ieee (ex_greedy ! 0) (ex_greedy ! 1) 1 (matches_df res) 0 = [0, 1]"
    "candidate_pool ieee (ex_greedy ! 0) (ex_greedy ! 1) 1 (matches_df res) 1 = [0]"
    unfolding m
    by (simp_all add: candidate_pool_def consumed_before_def dist_between_def ex_defs
        fsub_def fabs_def fle_def upt_rec ieee_greedy_a ieee_greedy_b ieee_greedy_c
        ieee_greedy_d)
  have i: "map new_defect_id (matches_df res) = [0, 1]"
    "map old_defect_id (matches_df res) = [1, 0]"
    unfolding m by simp_all
  show ?thesis
    by (intro conjI exI[of _ res]) (rule h1 h2 h3 h4 r g p i)+
qed

text \<open>
  Claim C2. In the matches returned, no old defect id and no new defect id occurs in
  more than one match.
\<close>

theorem compare_defects_one_to_one:
  assumes "a < length h" "b < length h"
    and "has_required_columns (h ! a)" "has_required_columns (h ! b)"
  shows "\<exists>res. fst (compare_defects F a b oy ny tol h) = Inr res \<and>
           distinct (map old_defect_id (matches_df res)) \<and>
           distinct (map new_defect_id (matches_df res))"
proof -
  from compare_defects_loop[OF assms, where F=F and oy=oy and ny=ny and tol=tol] obtain s res
    where "fst (compare_defects F a b oy ny tol h) = Inr res"
      and "matches_df res = matches s"
      and "loop_inv F (growth_flag oy ny) (both_have ''depth [%]'' (h ! a) (h ! b))
             (both_have ''wt nom [mm]'' (h ! a) (h ! b)) (years_between oy ny) tol
             (h ! a) (h ! b) (length (rows (h ! b))) s"
    by auto
  then show ?thesis by (auto simp: loop_inv_def strict_sorted_iff)
qed

theorem compare_defects_one_to_one_witness:
  "(0::nat) < length ex_greedy \<and> (1::nat) < length ex_greedy \<and>
   has_required_columns (ex_greedy ! 0) \<and> has_required_columns (ex_greedy ! 1) \<and>
   (\<exists>res. fst (compare_defects ieee 0 1 None None 1 ex_greedy) = Inr res \<and>
           distinct (map old_defect_id (matches_df res)) \<and>
           distinct (map new_defect_id (matches_df res)))"
  by (intro conjI ex_greedy_ok
      compare_defects_one_to_one[OF ex_greedy_ok, where F=ieee and oy=None and ny=None and tol=1])

text \<open>
  Claim C3. The counts returned satisfy
  \<open>common_defects_count + new_defects_count = total_defects\<close>, and \<open>total_defects\<close> is the
  number of rows of the new table.
\<close>

theorem compare_defects_conservation:
  assumes "a < length h" "b < length h"
    and "has_required_columns (h ! a)" "has_required_columns (h ! b)"
  shows "\<exists>res. fst (compare_defects F a b oy ny tol h) = Inr res \<and>
           common_defects_count res + new_defects_count res = total_defects res \<and>
           total_defects res = length (rows (h ! b))"
proof -
  from compare_defects_loop[OF assms, where F=F and oy=oy and ny=ny and tol=tol] obtain s res
    where r: "fst (compare_defects F a b oy ny tol h) = Inr res"
      and b: "res = build_results F (growth_flag oy ny) (both_have ''depth [%]'' (h ! a) (h ! b))
                   (both_have ''wt nom [mm]'' (h ! a) (h ! b)) (assign_defect_id (h ! b)) s"
      and inv: "loop_inv F (growth_flag oy ny) (both_have ''depth [%]'' (h ! a) (h ! b))
             (both_have ''wt nom [mm]'' (h ! a) (h ! b)) (years_between oy ny) tol
             (h ! a) (h ! b) (length (rows (h ! b))) s"
    by auto
  from loop_inv_counts[OF inv] b have
    "common_defects_count res + new_defects_count res = total_defects res"
    "total_defects res = length (rows (h ! b))"
    by (simp_all add: build_results_def Let_def rows_assign length_range_ids)
  with r show ?thesis by blast
qed

theorem compare_defects_conservation_witness:
  "(0::nat) < length ex_greedy \<and> (1::nat) < length ex_greedy \<and>
   has_required_columns (ex_greedy ! 0) \<and> has_required_columns (ex_greedy ! 1) \<and>
   (\<exists>res. fst (compare_defects ieee 0 1 None None (1/16) ex_greedy) = Inr res \<and>
           common_defects_count res + new_defects_count res = total_defects res \<and>
           total_defects res = length (rows (ex_greedy ! 1)))"
  by (intro conjI ex_greedy_ok
      compare_defects_conservation[OF ex_greedy_ok, where F=ieee and oy=None and ny=None
        and tol="1/16"])

text \<open>
  Read on the exact difference, the second half fails. The doubles nearest to 0.04 and
  0.14 differ by more than the double nearest to 0.1, by \<open>2^-57\<close>; their float64
  difference is that double, and the match is recorded.
\<close>

theorem tolerance_exact_claim_counterexample:
  "(3602879701896397 / 36028797018963968 :: real)
     < \<bar>5764607523034235 / 144115188075855872 - 1261007895663739 / 9007199254740992\<bar> \<and>
   map_sum id (map old_defect_id \<circ> matches_df)
     (fst (compare_defects ieee 0 1 None None (3602879701896397 / 36028797018963968)
             ex_round_boundary)) = Inr [0] \<and>
   map_sum id new_defects_count
     (fst (compare_defects ieee 0 1 None None (3602879701896397 / 36028797018963968)
             ex_round_boundary)) = Inr 0"
  unfolding ex_round_boundary_matches
  by (simp add: build_results_def make_match_def assign_defect_id_def range_ids_def
      enumerate_eq_zip ex_defs Let_def)

text \<open>
  Claim C4, as amended. With one old defect and one new defect: when the absolute value
  of the float64 difference of their log distances equals the tolerance, the two are
  matched; when it is greater than the tolerance, there is no match and the new defect
  is reported as new.
\<close>

theorem compare_defects_tolerance_boundary:
  assumes "a < length h" "b < length h"
    and "has_required_columns (h ! a)" "has_required_columns (h ! b)"
    and "rows (h ! a) = [od]" "rows (h ! b) = [nd]"
    and "log_dist_m od = Some x" "log_dist_m nd = Some y"
  shows "(\<bar>f_sub F x y\<bar> = tol \<longrightarrow>
           (\<exists>res m. fst (compare_defects F a b oy ny tol h) = Inr res \<and>
              matches_df res = [m] \<and> new_defect_id m = 0 \<and> old_defect_id m = 0 \<and>
              distance_diff m = Some tol \<and> rows (new_defects res) = [] \<and>
              common_defects_count res = 1 \<and> new_defects_count res = 0)) \<and>
         (tol < \<bar>f_sub F x y\<bar> \<longrightarrow>
           (\<exists>res. fst (compare_defects F a b oy ny tol h) = Inr res \<and>
              matches_df res = [] \<and> rows (new_defects res) = [nd\<lparr>defect_id := 0\<rparr>] \<and>
              common_defects_count res = 0 \<and> new_defects_count res = 1))"
  unfolding compare_defects_accepted[OF assms(1-4)]
  using assms(5-8)
  by (simp add: range_ids_def enumerate_eq_zip match_step_def potential_matches_def
      fsub_def fabs_def fle_def Let_def build_results_def assign_defect_id_def)

theorem compare_defects_tolerance_boundary_witness:
  "(0::nat) < length ex_boundary \<and> (1::nat) < length ex_boundary \<and>
   has_required_columns (ex_boundary ! 0) \<and> has_required_columns (ex_boundary ! 1) \<and>
   rows (ex_boundary ! 0) = [ex_row 10 20 100] \<and>
   rows (ex_boundary ! 1) = [ex_row (41/4) 25 100] \<and>
   log_dist_m (ex_row 10 20 100) = Some 10 \<and>
   log_dist_m (ex_row (41/4) 25 100) = Some (41/4) \<and>
   \<bar>f_sub ieee 10 (41/4)\<bar> = (1/4 :: real) \<and> (1/8 :: real) < \<bar>f_sub ieee 10 (41/4)\<bar> \<and>
   (\<exists>res m. fst (compare_defects ieee 0 1 None None (1/4) ex_boundary) = Inr res \<and>
      matches_df res = [m] \<and> new_defect_id m = 0 \<and> old_defect_id m = 0 \<and>
      distance_diff m = Some (1/4) \<and> rows (new_defects res) = [] \<and>
      common_defects_count res = 1 \<and> new_defects_count res = 0) \<and>
   (\<exists>res. fst (compare_defects ieee 0 1 None None (1/8) ex_boundary) = Inr res \<and>
      matches_df res = [] \<and>
      rows (new_defects res) = [(ex_row (41/4) 25 100)\<lparr>defect_id := 0\<rparr>] \<and>
      common_defects_count res = 0 \<and> new_defects_count res = 1)"
proof -
  have e1: "\<bar>f_sub ieee 10 (41/4)\<bar> = (1/4 :: real)" and e2: "(1/8 :: real) < \<bar>f_sub ieee 10 (41/4)\<bar>"
    by (simp_all add: ieee_boundary)
  from compare_defects_tolerance_boundary[OF ex_boundary_ok, where F=ieee and tol="1/4"
      and oy=None and ny=None] e1
  have m1: "\<exists>res m. fst (compare_defects ieee 0 1 None None (1/4) ex_boundary) = Inr res \<and>
      matches_df res = [m] \<and> new_defect_id m = 0 \<and> old_defect_id m = 0 \<and>
      distance_diff m = Some (1/4) \<and> rows (new_defects res) = [] \<and>
      common_defects_count res = 1 \<and> new_defects_count res = 0"
    by blast
  from compare_defects_tolerance_boundary[OF ex_boundary_ok, where F=ieee and tol="1/8"
      and oy=None and ny=None] e2
  have m2: "\<exists>res. fst (compare_defects ieee 0 1 None None (1/8) ex_boundary) = Inr res \<and>
      matches_df res = [] \<and>
      rows (new_defects res) = [(ex_row (41/4) 25 100)\<lparr>defect_id := 0\<rparr>] \<and>
      common_defects_count res = 0 \<and> new_defects_count res = 1"
    by blast
  show ?thesis
    by (intro conjI ex_boundary_ok e1 e2 m1 m2)
qed




text \<open>
  Claim C6. When one of the two tables lacks the log distance column or the anomaly
  column, \<open>compare_defects\<close> raises \<open>ValueError\<close> with the message \<open>Missing column:\<close>
  followed by the name of such a column. Nothing has been done before but the two
  copies: the store holds them unchanged, no id was assigned and no result exists.
\<close>

theorem compare_defects_missing_column:
  assumes "a < length h" "b < length h"
    and "\<not> (has_required_columns (h ! a) \<and> has_required_columns (h ! b))"
  shows "\<exists>col. col \<in> {''log dist. [m]'', ''component / anomaly identification''} \<and>
           (col \<notin> set (columns (h ! a)) \<or> col \<notin> set (columns (h ! b))) \<and>
           compare_defects F a b oy ny tol h =
             (Inl (ValueError (''Missing column: '' @ col)), h @ [h ! a, h ! b])"
proof -
  from assms(3) have "missing_column (h ! a) (h ! b) \<noteq> None"
    by (simp add: missing_column_None)
  then obtain col where c: "missing_column (h ! a) (h ! b) = Some col" by auto
  from missing_column_Some[OF c] compare_defects_rejected[OF assms(1,2) c]
  show ?thesis by blast
qed

theorem compare_defects_missing_column_witness:
  "(0::nat) < length ex_missing \<and> (1::nat) < length ex_missing \<and>
   \<not> (has_required_columns (ex_missing ! 0) \<and> has_required_columns (ex_missing ! 1)) \<and>
   compare_defects ieee 0 1 (Some 2018) (Some 2020) (1/100) ex_missing =
     (Inl (ValueError ''Missing column: component / anomaly identification''),
      ex_missing @ [ex_missing ! 0, ex_missing ! 1])"
proof -
  from compare_defects_missing_column[OF ex_missing_ok, where F=ieee and oy="Some 2018"
      and ny="Some 2020" and tol="1/100"]
  obtain col where c: "col \<in> {''log dist. [m]'', ''component / anomaly identification''}"
    and m: "col \<notin> set (columns (ex_missing ! 0)) \<or> col \<notin> set (columns (ex_missing ! 1))"
    and r: "compare_defects ieee 0 1 (Some 2018) (Some 2020) (1/100) ex_missing =
             (Inl (ValueError (''Missing column: '' @ col)),
              ex_missing @ [ex_missing ! 0, ex_missing ! 1])"
    by blast
  from c m have "col = ''component / anomaly identification''"
    by (auto simp: ex_defs)
  with r have "compare_defects ieee 0 1 (Some 2018) (Some 2020) (1/100) ex_missing =
     (Inl (ValueError ''Missing column: component / anomaly identification''),
      ex_missing @ [ex_missing ! 0, ex_missing ! 1])"
    by simp
  then show ?thesis
    by (intro conjI ex_missing_ok)
qed



text \<open>
  The wording of the specification against the function, in float64 arithmetic (all
  the values below are computed without rounding), at three inputs: \<open>1/2\<close> lies
  in \<open>(0, 12]\<close> and is not left unchanged; at \<open>319/256\<close> the minutes are 14.77 and are
  not rounded up; at \<open>-25/2\<close> the sum with 12 is negative and the hour is not its
  floor.
\<close>

theorem decimal_to_clock_claim_counterexample:
  "decimal_to_clock_str ieee (Some (1/2)) = PyStr ''12:30'' \<and>
   clock_as_claimed (1/2) = PyStr ''0:30'' \<and>
   decimal_to_clock_str ieee (Some (319/256)) = PyStr ''1:14'' \<and>
   clock_as_claimed (319/256) = PyStr ''1:15'' \<and>
   decimal_to_clock_str ieee (Some (- 25/2)) = PyStr ''0:-30'' \<and>
   clock_as_claimed (- 25/2) = PyStr ''-1:30''"
  by (simp add: codec_defs ieee_clock_a1 ieee_clock_a2 ieee_clock_a3 ieee_clock_b1
      ieee_clock_b2 ieee_clock_c1 ieee_clock_c2 ieee_clock_c3)

text \<open>
  Claim C8, as amended. For a non-null input \<open>h\<close> let \<open>w\<close> be the float64 sum \<open>h + 12\<close>
  when \<open>h < 1\<close>, \<open>h\<close> reduced modulo 12 into \<open>(0, 12]\<close> when \<open>h > 12\<close> (a multiple of 12
  gives 12), and \<open>h\<close> itself when \<open>1 \<le> h \<le> 12\<close>. When \<open>w\<close> is not negative, the string
  returned has the floor of \<open>w\<close> as its hour, and its minutes are the float64 product
  of 60 and the float64 difference of \<open>w\<close> and its floor, truncated toward zero: the
  minutes are cut, not rounded.
\<close>

theorem decimal_to_clock_str_wrap:
  "\<exists>w. (h < 1 \<longrightarrow> w = f_add F h 12)
     \<and> (12 < h \<longrightarrow> 0 < w \<and> w \<le> 12 \<and> (\<exists>k::int. h = w + 12 * real_of_int k))
     \<and> (1 \<le> h \<and> h \<le> 12 \<longrightarrow> w = h)
     \<and> (0 \<le> w \<longrightarrow>
          decimal_to_clock_str F (Some h) =
            PyStr (fmt_d \<lfloor>w\<rfloor> @ '':'' @
                   fmt_02d (py_int (f_mul F (f_sub F w (real_of_int \<lfloor>w\<rfloor>)) 60))))"
proof -
  define w where "w = (if h < 1 then f_add F h 12
                   else if h > 12 then (if py_mod h 12 = 0 then 12 else py_mod h 12)
                   else h)"
  have out: "decimal_to_clock_str F (Some h) =
          PyStr (fmt_d (py_int w) @ '':'' @
                 fmt_02d (py_int (f_mul F (f_sub F w (real_of_int (py_int w))) 60)))"
    by (simp add: decimal_to_clock_str_def w_def Let_def)
  have c1: "h < 1 \<longrightarrow> w = f_add F h 12" by (simp add: w_def)
  have c3: "1 \<le> h \<and> h \<le> 12 \<longrightarrow> w = h" by (simp add: w_def)
  have c2: "12 < h \<longrightarrow> 0 < w \<and> w \<le> 12 \<and> (\<exists>k::int. h = w + 12 * real_of_int k)"
  proof
    assume h: "12 < h"
    show "0 < w \<and> w \<le> 12 \<and> (\<exists>k::int. h = w + 12 * real_of_int k)"
    proof (cases "py_mod h 12 = 0")
      case True
      with h have w: "w = 12" by (simp add: w_def)
      from True have "h = 12 + 12 * real_of_int (\<lfloor>h / 12\<rfloor> - 1)"
        by (simp add: py_mod_def algebra_simps)
      then have "\<exists>k::int. h = 12 + 12 * real_of_int k" by (rule exI)
      with w show ?thesis by simp
    next
      case False
      with h have w: "w = py_mod h 12" by (simp add: w_def)
      have "h = py_mod h 12 + 12 * real_of_int \<lfloor>h / 12\<rfloor>" by (simp add: py_mod_def)
      with w False py_mod_12_range[of h] show ?thesis by auto
    qed
  qed
  have c4: "0 \<le> w \<longrightarrow>
          decimal_to_clock_str F (Some h) =
            PyStr (fmt_d \<lfloor>w\<rfloor> @ '':'' @
                   fmt_02d (py_int (f_mul F (f_sub F w (real_of_int \<lfloor>w\<rfloor>)) 60)))"
  proof
    assume "0 \<le> w"
    then have e: "py_int w = \<lfloor>w\<rfloor>" by (rule py_int_floor)
    show "decimal_to_clock_str F (Some h) =
            PyStr (fmt_d \<lfloor>w\<rfloor> @ '':'' @
                   fmt_02d (py_int (f_mul F (f_sub F w (real_of_int \<lfloor>w\<rfloor>)) 60)))"
      unfolding out e ..
  qed
  from c1 c2 c3 c4 show ?thesis by blast
qed

theorem decimal_to_clock_str_wrap_witness:
  "(1/2 :: real) < 1 \<and> decimal_to_clock_str ieee (Some (1/2)) = PyStr ''12:30'' \<and>
   (3602879701896397 / 36028797018963968 :: real) < 1 \<and>
   decimal_to_clock_str ieee (Some (3602879701896397 / 36028797018963968)) = PyStr ''12:05'' \<and>
   (9007199254740991 / 9007199254740992 :: real) < 1 \<and>
   decimal_to_clock_str ieee (Some (9007199254740991 / 9007199254740992)) = PyStr ''13:00'' \<and>
   (1 :: real) \<le> 47/8 \<and> (47/8 :: real) \<le> 12 \<and>
   decimal_to_clock_str ieee (Some (47/8)) = PyStr ''5:52'' \<and>
   (12 :: real) < 25/2 \<and>
   (\<exists>w. 0 < w \<and> w \<le> 12 \<and> (\<exists>k::int. 25/2 = w + 12 * real_of_int k) \<and>
      decimal_to_clock_str ieee (Some (25/2)) =
        PyStr (fmt_d \<lfloor>w\<rfloor> @ '':'' @
               fmt_02d (py_int (f_mul ieee (f_sub ieee w (real_of_int \<lfloor>w\<rfloor>)) 60))))"
proof -
  have a: "(1/2 :: real) < 1" "(3602879701896397 / 36028797018963968 :: real) < 1"
    "(9007199254740991 / 9007199254740992 :: real) < 1"
    "(1 :: real) \<le> 47/8" "(47/8 :: real) \<le> 12" "(12 :: real) < 25/2"
    by simp_all
  from decimal_to_clock_str_wrap[of "1/2" ieee] a(1)
  obtain w1 where w1: "w1 = f_add ieee (1/2) 12"
    and o1: "0 \<le> w1 \<longrightarrow> decimal_to_clock_str ieee (Some (1/2)) =
        PyStr (fmt_d \<lfloor>w1\<rfloor> @ '':'' @
               fmt_02d (py_int (f_mul ieee (f_sub ieee w1 (real_of_int \<lfloor>w1\<rfloor>)) 60)))"
    by blast
  have b: "decimal_to_clock_str ieee (Some (1/2)) = PyStr ''12:30''"
    using o1 unfolding w1 ieee_clock_a1
    by (simp add: ieee_clock_a2 ieee_clock_a3 py_int_def fmt_d_def fmt_02d_def digits.simps)
  from decimal_to_clock_str_wrap[of "3602879701896397 / 36028797018963968" ieee] a(2)
  obtain w2 where w2: "w2 = f_add ieee (3602879701896397 / 36028797018963968) 12"
    and o2: "0 \<le> w2 \<longrightarrow>
      decimal_to_clock_str ieee (Some (3602879701896397 / 36028797018963968)) =
        PyStr (fmt_d \<lfloor>w2\<rfloor> @ '':'' @
               fmt_02d (py_int (f_mul ieee (f_sub ieee w2 (real_of_int \<lfloor>w2\<rfloor>)) 60)))"
    by blast
  have c: "decimal_to_clock_str ieee (Some (3602879701896397 / 36028797018963968))
             = PyStr ''12:05''"
    using o2 unfolding w2 ieee_clock_d1
    by (simp add: ieee_clock_d2 ieee_clock_d3 py_int_def fmt_d_def fmt_02d_def digits.simps)
  from decimal_to_clock_str_wrap[of "9007199254740991 / 9007199254740992" ieee] a(3)
  obtain w3 where w3: "w3 = f_add ieee (9007199254740991 / 9007199254740992) 12"
    and o3: "0 \<le> w3 \<longrightarrow>
      decimal_to_clock_str ieee (Some (9007199254740991 / 9007199254740992)) =
        PyStr (fmt_d \<lfloor>w3\<rfloor> @ '':'' @
               fmt_02d (py_int (f_mul ieee (f_sub ieee w3 (real_of_int \<lfloor>w3\<rfloor>)) 60)))"
    by blast
  have d: "decimal_to_clock_str ieee (Some (9007199254740991 / 9007199254740992))
             = PyStr ''13:00''"
    using o3 unfolding w3 ieee_clock_e1
    by (simp add: ieee_clock_e2 ieee_clock_e3 py_int_def fmt_d_def fmt_02d_def digits.simps)
  from decimal_to_clock_str_wrap[of "47/8" ieee] a(4,5)
  obtain w4 where w4: "w4 = 47/8"
    and o4: "0 \<le> w4 \<longrightarrow> decimal_to_clock_str ieee (Some (47/8)) =
        PyStr (fmt_d \<lfloor>w4\<rfloor> @ '':'' @
               fmt_02d (py_int (f_mul ieee (f_sub ieee w4 (real_of_int \<lfloor>w4\<rfloor>)) 60)))"
    by blast
  have e: "decimal_to_clock_str ieee (Some (47/8)) = PyStr ''5:52''"
    using o4 unfolding w4
    by (simp add: ieee_clock_f1 ieee_clock_f2 py_int_def fmt_d_def fmt_02d_def digits.simps)
  from decimal_to_clock_str_wrap[of "25/2" ieee] a(6)
  obtain w5 where p5: "0 < w5" "w5 \<le> 12" "\<exists>k::int. 25/2 = w5 + 12 * real_of_int k"
    and o5: "0 \<le> w5 \<longrightarrow> decimal_to_clock_str ieee (Some (25/2)) =
        PyStr (fmt_d \<lfloor>w5\<rfloor> @ '':'' @
               fmt_02d (py_int (f_mul ieee (f_sub ieee w5 (real_of_int \<lfloor>w5\<rfloor>)) 60)))"
    by blast
  from p5(1) have "0 \<le> w5" by simp
  with o5 have q5: "decimal_to_clock_str ieee (Some (25/2)) =
        PyStr (fmt_d \<lfloor>w5\<rfloor> @ '':'' @
               fmt_02d (py_int (f_mul ieee (f_sub ieee w5 (real_of_int \<lfloor>w5\<rfloor>)) 60)))"
    by (rule mp)
  have f: "\<exists>w. 0 < w \<and> w \<le> 12 \<and> (\<exists>k::int. 25/2 = w + 12 * real_of_int k) \<and>
      decimal_to_clock_str ieee (Some (25/2)) =
        PyStr (fmt_d \<lfloor>w\<rfloor> @ '':'' @
               fmt_02d (py_int (f_mul ieee (f_sub ieee w (real_of_int \<lfloor>w\<rfloor>)) 60)))"
    by (intro exI[of _ w5] conjI) (rule p5 q5)+
  show ?thesis by (intro conjI a b c d e f)
qed

text \<open>
  The value that \<open>decimal_to_clock_str\<close> returns on a null input is not null.
\<close>

theorem codec_null_claim_counterexample:
  "\<not> is_null (decimal_to_clock_str ieee None)"
  by (simp add: is_null_def decimal_to_clock_str_def)

text \<open>
  Claim C9, as amended. On a null input \<open>float_to_clock\<close> returns \<open>None\<close>, \<open>parse_clock\<close>
  returns NaN, and \<open>decimal_to_clock_str\<close> returns the string \<open>Unknown\<close>, whatever the
  arithmetic.
\<close>

theorem codec_null_inputs:
  "is_null (float_to_clock F floor_div float_mod None) \<and>
   is_null (parse_clock F int_of_str None) \<and>
   decimal_to_clock_str F None = PyStr ''Unknown''"
  by (simp add: is_null_def float_to_clock_def parse_clock_def decimal_to_clock_str_def)

text \<open>
  Claim C10. \<open>compare_defects\<close> leaves every table that was in the store as it was, the
  two tables passed in among them: the ids are written to the copies.
\<close>

theorem compare_defects_inputs_unchanged:
  assumes "a < length h" "b < length h"
  shows "take (length h) (snd (compare_defects F a b oy ny tol h)) = h \<and>
         snd (compare_defects F a b oy ny tol h) ! a = h ! a \<and>
         snd (compare_defects F a b oy ny tol h) ! b = h ! b"
  unfolding compare_defects_unfold[OF assms]
  using assms by (simp add: Let_def nth_append split: option.splits)

theorem compare_defects_inputs_unchanged_witness:
  "(0::nat) < length ex_greedy \<and> (1::nat) < length ex_greedy \<and>
   take (length ex_greedy) (snd (compare_defects ieee 0 1 None None 1 ex_greedy)) = ex_greedy \<and>
   snd (compare_defects ieee 0 1 None None 1 ex_greedy) ! 0 = ex_greedy ! 0 \<and>
   snd (compare_defects ieee 0 1 None None 1 ex_greedy) ! 1 = ex_greedy ! 1 \<and>
   snd (compare_defects ieee 0 0 None None 1 ex_greedy) ! 0 = ex_greedy ! 0"
  using compare_defects_inputs_unchanged[OF ex_greedy_ok(1,2), where F=ieee and oy=None and ny=None
      and tol=1]
    compare_defects_inputs_unchanged[OF ex_greedy_ok(1,1), where F=ieee and oy=None and ny=None
      and tol=1]
    ex_greedy_ok(1,2)
  by blast

end
